theory Spec2Isabelle
  imports Complex_Main "HOL-Library.Word"
begin

section \<open>Data model\<close>

text \<open>
  The rows of the four tables the services read and write (db/database.ts), with the
  columns the dispatch core uses. Strings are lists of 8-bit code units: a message is
  modelled over the Latin-1 part of JavaScript's UTF-16 alphabet. The column
  \<open>credits_remaining\<close> is a PostgreSQL INTEGER, a signed 32-bit word read by
  \<open>sint\<close>; an amount of credits handed to a service is a JavaScript number, an
  \<open>int\<close>. Instants are milliseconds since the epoch, as \<open>Date.getTime()\<close> gives them. A JavaScript number that
  holds a coordinate is the rational it was written as: rounding to a double is not
  modelled. The JSON texts of the columns \<open>messages\<close> and \<open>last_location\<close> are
  the values they encode.
\<close>

datatype status = pending | active | inactive

text \<open>What a call can throw: a refusal by the database, or a failed collaborator.\<close>

datatype exn = ForeignKeyViolation | IntegerOutOfRange | CollaboratorFailure | SendFailure

datatype lang = sv | en

record user =
  status :: status
  credits_remaining :: "32 word"
  selected_categories :: "string list option"
  active_agent_id :: "nat option"

datatype transaction_type = purchase | usage | refund

record transaction_row =
  tx_phone_number :: string
  tx_type :: transaction_type
  credits_delta :: int
  description :: "string option"
  stripe_payment_id :: "string option"

record location_fix =
  lat :: rat
  lon :: rat
  timestamp :: int

record session_row =
  session_id :: nat
  phone_number :: string
  messages :: "string list"
  last_ai_response :: "string option"
  last_location :: "location_fix option"
  updated_at :: int

record custom_agent =
  agent_id :: nat
  agent_phone_number :: string
  agent_name :: string
  system_prompt :: string
  agent_active :: bool

record database =
  users :: "string \<rightharpoonup> user"
  sessions :: "session_row list"
  next_session_id :: nat
  transactions :: "transaction_row list"
  custom_agents :: "custom_agent list"

section \<open>Credit ledger (UserService)\<close>

text \<open>\<open>SELECT * FROM users WHERE phone_number = ?\<close>; the column is the primary key.\<close>

definition getUser :: "database \<Rightarrow> string \<Rightarrow> user option" where
  "getUser d phoneNumber = users d phoneNumber"

text \<open>An \<open>UPDATE users SET ... WHERE phone_number = ?\<close>: no row, no change.\<close>

definition update_user :: "database \<Rightarrow> string \<Rightarrow> (user \<Rightarrow> user) \<Rightarrow> database" where
  "update_user d phoneNumber f =
     (case users d phoneNumber of
        None \<Rightarrow> d
      | Some u \<Rightarrow> d\<lparr>users := (users d)(phoneNumber \<mapsto> f u)\<rparr>)"

text \<open>
  The range of an INTEGER. A statement that computes \<open>credits_remaining + ?\<close> or
  \<open>credits_remaining - ?\<close> is refused with "integer out of range" when the
  parameter or the result lies outside it, and then changes nothing.
\<close>

definition int4 :: "int \<Rightarrow> bool" where
  "int4 i = (- 2147483648 \<le> i \<and> i \<le> 2147483647)"

definition addCredits :: "database \<Rightarrow> string \<Rightarrow> int \<Rightarrow> exn + database" where
  "addCredits d phoneNumber credits =
     (case users d phoneNumber of
        None \<Rightarrow> if int4 credits then Inr d else Inl IntegerOutOfRange
      | Some u \<Rightarrow>
          if int4 credits \<and> int4 (sint (credits_remaining u) + credits)
          then Inr (update_user d phoneNumber
                 (\<lambda>u. u\<lparr>credits_remaining := word_of_int (sint (credits_remaining u) + credits)\<rparr>))
          else Inl IntegerOutOfRange)"

definition deductCredits :: "database \<Rightarrow> string \<Rightarrow> int \<Rightarrow> exn + bool \<times> database" where
  "deductCredits d phoneNumber credits =
     (case getUser d phoneNumber of
        None \<Rightarrow> Inr (False, d)
      | Some u \<Rightarrow>
          if sint (credits_remaining u) < credits then Inr (False, d)
          else if int4 credits \<and> int4 (sint (credits_remaining u) - credits)
          then Inr (True, update_user d phoneNumber
                 (\<lambda>u. u\<lparr>credits_remaining := word_of_int (sint (credits_remaining u) - credits)\<rparr>))
          else Inl IntegerOutOfRange)"

definition hasCredits :: "database \<Rightarrow> string \<Rightarrow> int \<Rightarrow> bool" where
  "hasCredits d phoneNumber required =
     (case getUser d phoneNumber of
        None \<Rightarrow> False
      | Some u \<Rightarrow> sint (credits_remaining u) \<ge> required)"

text \<open>The balance of an identity, when it has an account.\<close>

definition balance :: "database \<Rightarrow> string \<Rightarrow> int option" where
  "balance d phoneNumber =
     map_option (\<lambda>u. sint (credits_remaining u)) (getUser d phoneNumber)"

definition example_user :: user where
  "example_user = \<lparr>status = active, credits_remaining = 3,
     selected_categories = None, active_agent_id = None\<rparr>"

definition example_db :: database where
  "example_db = \<lparr>users = [''+46700000001'' \<mapsto> example_user], sessions = [],
     next_session_id = 1, transactions = [], custom_agents = []\<rparr>"

section \<open>Rate limiter (services/rateLimiter.ts)\<close>

record RateLimitEntry =
  count :: int
  resetAt :: int

datatype window = minute | hour | day

record RateLimiter =
  limits :: "string \<rightharpoonup> RateLimitEntry"
  maxPerMinute :: int
  maxPerHour :: int
  maxPerDay :: int

record limit_result =
  allowed :: bool
  reason :: "string option"

definition RateLimiter_new :: "int \<Rightarrow> int \<Rightarrow> int \<Rightarrow> RateLimiter" where
  "RateLimiter_new perMinute perHour perDay =
     \<lparr>limits = Map.empty, maxPerMinute = perMinute, maxPerHour = perHour, maxPerDay = perDay\<rparr>"

fun window_name :: "window \<Rightarrow> string" where
  "window_name minute = ''minute''"
| "window_name hour = ''hour''"
| "window_name day = ''day''"

text \<open>The map key \<open>`${phoneNumber}:${window}`\<close>.\<close>

definition limit_key :: "string \<Rightarrow> window \<Rightarrow> string" where
  "limit_key phoneNumber w = phoneNumber @ '':'' @ window_name w"

fun getWindowDuration :: "window \<Rightarrow> int" where
  "getWindowDuration minute = 60 * 1000"
| "getWindowDuration hour = 60 * 60 * 1000"
| "getWindowDuration day = 24 * 60 * 60 * 1000"

fun getMaxLimit :: "RateLimiter \<Rightarrow> window \<Rightarrow> int" where
  "getMaxLimit r minute = maxPerMinute r"
| "getMaxLimit r hour = maxPerHour r"
| "getMaxLimit r day = maxPerDay r"

text \<open>\<open>this.limits.set(key, entry)\<close>.\<close>

definition limits_set :: "RateLimiter \<Rightarrow> string \<Rightarrow> RateLimitEntry \<Rightarrow> RateLimiter" where
  "limits_set r key entry = r\<lparr>limits := (limits r)(key \<mapsto> entry)\<rparr>"

text \<open>
  \<open>isAllowed\<close>, with the reading of \<open>Date.now()\<close> as an argument. The entry is an
  object held by the map, so \<open>entry.count++\<close> is an update of the map at the key.
\<close>

definition isAllowed :: "RateLimiter \<Rightarrow> string \<Rightarrow> window \<Rightarrow> int \<Rightarrow> bool \<times> RateLimiter" where
  "isAllowed r phoneNumber w now =
     (let key = limit_key phoneNumber w;
          windowDuration = getWindowDuration w;
          maxLimit = getMaxLimit r w;
          fresh = (True, limits_set r key \<lparr>count = 1, resetAt = now + windowDuration\<rparr>)
      in case limits r key of
           None \<Rightarrow> fresh
         | Some entry \<Rightarrow>
             if now > resetAt entry then fresh
             else if count entry \<ge> maxLimit then (False, r)
             else (True, limits_set r key (entry\<lparr>count := count entry + 1\<rparr>)))"

text \<open>Decimal text of a number, as a template literal prints an integer.\<close>

function nat_digits :: "nat \<Rightarrow> string" where
  "nat_digits n =
     (if n < 10 then [char_of (48 + n)]
      else nat_digits (n div 10) @ [char_of (48 + n mod 10)])"
  by pat_completeness auto
termination
  by (relation "measure id") auto

definition int_text :: "int \<Rightarrow> string" where
  "int_text i = (if i < 0 then CHR ''-'' # nat_digits (nat (- i)) else nat_digits (nat i))"

fun per_window :: "window \<Rightarrow> string" where
  "per_window minute = '' per minut.''"
| "per_window hour = '' per timme.''"
| "per_window day = '' per dag.''"

definition limit_reason :: "RateLimiter \<Rightarrow> window \<Rightarrow> string" where
  "limit_reason r w =
     ''Du har skickat f'' @ [CHR 0xF6] @ ''r m'' @ [CHR 0xE5] @ ''nga meddelanden. Max ''
       @ int_text (getMaxLimit r w) @ per_window w"

text \<open>
  \<open>checkLimits\<close>: the three windows in turn, the first refusal ending the call. Each
  \<open>isAllowed\<close> reads the clock itself, so the clock is a reading per window.
\<close>

definition checkLimits :: "RateLimiter \<Rightarrow> string \<Rightarrow> (window \<Rightarrow> int) \<Rightarrow> limit_result \<times> RateLimiter" where
  "checkLimits r phoneNumber now =
     (case isAllowed r phoneNumber minute (now minute) of
        (False, r1) \<Rightarrow> (\<lparr>allowed = False, reason = Some (limit_reason r minute)\<rparr>, r1)
      | (True, r1) \<Rightarrow>
     (case isAllowed r1 phoneNumber hour (now hour) of
        (False, r2) \<Rightarrow> (\<lparr>allowed = False, reason = Some (limit_reason r hour)\<rparr>, r2)
      | (True, r2) \<Rightarrow>
     (case isAllowed r2 phoneNumber day (now day) of
        (False, r3) \<Rightarrow> (\<lparr>allowed = False, reason = Some (limit_reason r day)\<rparr>, r3)
      | (True, r3) \<Rightarrow> (\<lparr>allowed = True, reason = None\<rparr>, r3))))"

text \<open>\<open>getCount\<close> of \<open>getUsage\<close>: the count of a window that has not run out, else 0.\<close>

definition getCount :: "RateLimiter \<Rightarrow> string \<Rightarrow> window \<Rightarrow> int \<Rightarrow> int" where
  "getCount r phoneNumber w now =
     (case limits r (limit_key phoneNumber w) of
        None \<Rightarrow> 0
      | Some entry \<Rightarrow> if now \<le> resetAt entry then count entry else 0)"

text \<open>\<open>cleanup\<close>, run every five minutes: drops the entries that have run out.\<close>

definition cleanup :: "RateLimiter \<Rightarrow> int \<Rightarrow> RateLimiter" where
  "cleanup r now =
     r\<lparr>limits := (\<lambda>key. case limits r key of
                       None \<Rightarrow> None
                     | Some entry \<Rightarrow> if now > resetAt entry then None else Some entry)\<rparr>"

text \<open>A sender's successive calls on one window, at the given clock readings.\<close>

fun calls :: "RateLimiter \<Rightarrow> string \<Rightarrow> window \<Rightarrow> int list \<Rightarrow> bool list \<times> RateLimiter" where
  "calls r phoneNumber w [] = ([], r)"
| "calls r phoneNumber w (t # ts) =
     (case isAllowed r phoneNumber w t of
        (ok, r') \<Rightarrow> (case calls r' phoneNumber w ts of (oks, r'') \<Rightarrow> (ok # oks, r'')))"

text \<open>The order in which \<open>checkLimits\<close> consults the windows.\<close>

fun checked_before :: "window \<Rightarrow> window \<Rightarrow> bool" where
  "checked_before minute hour = True"
| "checked_before minute day = True"
| "checked_before hour day = True"
| "checked_before _ _ = False"

definition limiter2 :: RateLimiter where
  "limiter2 = RateLimiter_new 2 30 200"

definition limiter0 :: RateLimiter where
  "limiter0 = RateLimiter_new 0 30 200"

definition limiter_hour_full :: RateLimiter where
  "limiter_hour_full =
     \<lparr>limits = [''+46700000001:minute'' \<mapsto> \<lparr>count = 1, resetAt = 61000\<rparr>,
                 ''+46700000001:hour'' \<mapsto> \<lparr>count = 1, resetAt = 3601000\<rparr>,
                 ''+46700000001:day'' \<mapsto> \<lparr>count = 1, resetAt = 86401000\<rparr>],
      maxPerMinute = 5, maxPerHour = 1, maxPerDay = 200\<rparr>"

section \<open>Session store (SessionService)\<close>

definition SESSION_TIMEOUT_MINUTES :: rat where
  "SESSION_TIMEOUT_MINUTES = 30"

definition MAX_MESSAGES :: nat where
  "MAX_MESSAGES = 3"

text \<open>A JavaScript string in a condition: the empty string counts as false.\<close>

definition truthy :: "string \<Rightarrow> bool" where
  "truthy s = (s \<noteq> [])"

definition isSessionExpired :: "session_row \<Rightarrow> int \<Rightarrow> bool" where
  "isSessionExpired session now =
     (let diffMinutes = (of_int (now - updated_at session) :: rat) / (1000 * 60)
      in diffMinutes > SESSION_TIMEOUT_MINUTES)"

text \<open>
  \<open>ORDER BY updated_at DESC LIMIT 1\<close>: a row with the greatest \<open>updated_at\<close>. Among
  rows with the same instant the database may give any; the model gives the first.
\<close>

fun most_recent :: "session_row list \<Rightarrow> session_row option" where
  "most_recent [] = None"
| "most_recent (x # xs) =
     (case most_recent xs of
        None \<Rightarrow> Some x
      | Some y \<Rightarrow> if updated_at y > updated_at x then Some y else Some x)"

definition latest_row :: "database \<Rightarrow> string \<Rightarrow> session_row option" where
  "latest_row d phoneNumber =
     most_recent (filter (\<lambda>s. phone_number s = phoneNumber) (sessions d))"

definition getSession :: "database \<Rightarrow> string \<Rightarrow> int \<Rightarrow> session_row option" where
  "getSession d phoneNumber now =
     (case latest_row d phoneNumber of
        None \<Rightarrow> None
      | Some session \<Rightarrow> if isSessionExpired session now then None else Some session)"

text \<open>
  \<open>createSession\<close>: the INSERT takes the next value of the id sequence and the current
  instant, and is refused when \<open>phone_number\<close> has no row in \<open>users\<close> (the foreign
  key of the table). The session read back is returned with the new database.
\<close>

definition createSession ::
  "database \<Rightarrow> string \<Rightarrow> string \<Rightarrow> int \<Rightarrow> exn + (session_row option \<times> database)" where
  "createSession d phoneNumber userMessage now =
     (if users d phoneNumber = None then Inl ForeignKeyViolation
      else
        let row = \<lparr>session_id = next_session_id d, phone_number = phoneNumber,
                    messages = [userMessage], last_ai_response = None,
                    last_location = None, updated_at = now\<rparr>;
            d' = d\<lparr>sessions := sessions d @ [row], next_session_id := Suc (next_session_id d)\<rparr>
        in Inr (getSession d' phoneNumber now, d'))"

text \<open>\<open>messages.slice(-n)\<close>: the last \<open>n\<close> elements.\<close>

definition slice_last :: "nat \<Rightarrow> 'a list \<Rightarrow> 'a list" where
  "slice_last n xs = drop (length xs - n) xs"

definition updateSession ::
  "database \<Rightarrow> string \<Rightarrow> string option \<Rightarrow> string \<Rightarrow> int \<Rightarrow> exn + database" where
  "updateSession d phoneNumber userMessage aiResponse now =
     (case getSession d phoneNumber now of
        None \<Rightarrow>
          (case userMessage of
             None \<Rightarrow> Inr d
           | Some m \<Rightarrow>
               if truthy m then
                 (case createSession d phoneNumber m now of
                    Inl e \<Rightarrow> Inl e
                  | Inr (created, d') \<Rightarrow> Inr d')
               else Inr d)
      | Some session \<Rightarrow>
          let msgs = messages session;
              msgs = (case userMessage of
                        None \<Rightarrow> msgs
                      | Some m \<Rightarrow>
                          if truthy m then
                            (let pushed = msgs @ [m]
                             in if length pushed > MAX_MESSAGES
                                then slice_last MAX_MESSAGES pushed else pushed)
                          else msgs)
          in Inr (d\<lparr>sessions := map (\<lambda>s. if session_id s = session_id session
                                      then s\<lparr>messages := msgs,
                                             last_ai_response := Some aiResponse,
                                             updated_at := now\<rparr>
                                      else s) (sessions d)\<rparr>))"

record session_context =
  ctx_messages :: "string list"
  lastAiResponse :: "string option"

definition getContext :: "database \<Rightarrow> string \<Rightarrow> int \<Rightarrow> session_context" where
  "getContext d phoneNumber now =
     (case getSession d phoneNumber now of
        None \<Rightarrow> \<lparr>ctx_messages = [], lastAiResponse = None\<rparr>
      | Some session \<Rightarrow>
          \<lparr>ctx_messages = messages session,
           lastAiResponse = (case last_ai_response session of
                               None \<Rightarrow> None
                             | Some a \<Rightarrow> if truthy a then Some a else None)\<rparr>)"

definition clearExpiredSessions :: "database \<Rightarrow> int \<Rightarrow> database" where
  "clearExpiredSessions d now =
     (let cutoffTime = now - 30 * 60 * 1000
      in d\<lparr>sessions := filter (\<lambda>s. \<not> updated_at s < cutoffTime) (sessions d)\<rparr>)"

text \<open>
  \<open>saveLocation\<close>: the fix, stamped with the current instant, is written by
  \<open>UPDATE sessions SET last_location = ? WHERE phone_number = ?\<close>.
\<close>

definition saveLocation :: "database \<Rightarrow> string \<Rightarrow> rat \<Rightarrow> rat \<Rightarrow> int \<Rightarrow> database" where
  "saveLocation d phoneNumber la lo now =
     (let location = \<lparr>lat = la, lon = lo, timestamp = now\<rparr>
      in d\<lparr>sessions := map (\<lambda>s. if phone_number s = phoneNumber
                                  then s\<lparr>last_location := Some location\<rparr> else s)
                             (sessions d)\<rparr>)"

definition getLastLocation :: "database \<Rightarrow> string \<Rightarrow> int \<Rightarrow> (rat \<times> rat) option" where
  "getLastLocation d phoneNumber now =
     (case latest_row d phoneNumber of
        None \<Rightarrow> None
      | Some session \<Rightarrow>
          (case last_location session of
             None \<Rightarrow> None
           | Some location \<Rightarrow>
               let hoursSinceUpdate =
                     (of_int (now - timestamp location) :: rat) / (1000 * 60 * 60)
               in if hoursSinceUpdate > 24 then None
                  else Some (lat location, lon location)))"

text \<open>A conversation: successive \<open>updateSession\<close> calls (message, reply, instant).\<close>

fun updates ::
  "database \<Rightarrow> string \<Rightarrow> (string option \<times> string \<times> int) list \<Rightarrow> exn + database" where
  "updates d phoneNumber [] = Inr d"
| "updates d phoneNumber ((m, a, t) # cs) =
     (case updateSession d phoneNumber m a t of
        Inl e \<Rightarrow> Inl e
      | Inr d' \<Rightarrow> updates d' phoneNumber cs)"

text \<open>The messages a conversation appends: those given and not empty.\<close>

fun appended :: "(string option \<times> string \<times> int) list \<Rightarrow> string list" where
  "appended [] = []"
| "appended ((None, a, t) # cs) = appended cs"
| "appended ((Some m, a, t) # cs) = (if truthy m then m # appended cs else appended cs)"

text \<open>
  Instants that never go back and are at most the session timeout apart, from a first
  instant on.
\<close>

fun paced :: "int \<Rightarrow> int list \<Rightarrow> bool" where
  "paced t [] = True"
| "paced t (u # us) = (t \<le> u \<and> u - t \<le> 30 * 60 * 1000 \<and> paced u us)"


text \<open>
  Auxiliary notions for the properties of the session store: the row that is an
  identity's current session, the id sequence being ahead of every stored id, every
  stored window within the cap, and an identity all of whose sessions have timed out.
\<close>

definition current :: "database \<Rightarrow> string \<Rightarrow> session_row \<Rightarrow> bool" where
  "current d p s \<longleftrightarrow>
     s \<in> set (sessions d) \<and> phone_number s = p \<and>
     (\<forall>r\<in>set (sessions d). r \<noteq> s \<longrightarrow>
        session_id r \<noteq> session_id s \<and> (phone_number r = p \<longrightarrow> updated_at r < updated_at s))"

definition fresh_ids :: "database \<Rightarrow> bool" where
  "fresh_ids d \<longleftrightarrow> (\<forall>r\<in>set (sessions d). session_id r < next_session_id d)"

definition capped :: "database \<Rightarrow> bool" where
  "capped d \<longleftrightarrow> (\<forall>r\<in>set (sessions d). length (messages r) \<le> MAX_MESSAGES)"

definition dormant :: "database \<Rightarrow> string \<Rightarrow> int \<Rightarrow> bool" where
  "dormant d p t \<longleftrightarrow>
     (\<forall>r\<in>set (sessions d). phone_number r = p \<longrightarrow> t - updated_at r > 30 * 60 * 1000)"

fun call_time :: "string option \<times> string \<times> int \<Rightarrow> int" where
  "call_time (m, a, t) = t"

fun given :: "string option \<Rightarrow> string list" where
  "given None = []"
| "given (Some m) = (if truthy m then [m] else [])"

definition window_after :: "string list \<Rightarrow> string option \<Rightarrow> string list" where
  "window_after msgs userMessage = slice_last MAX_MESSAGES (msgs @ given userMessage)"

definition talk4 :: "(string option \<times> string \<times> int) list" where
  "talk4 = [(Some ''one'', ''r1'', 1000), (Some ''two'', ''r2'', 2000),
            (None, ''r2 in full'', 2500),
            (Some ''three'', ''r3'', 3000), (Some ''four'', ''r4'', 4000)]"

section \<open>Text utilities (utils/text.ts)\<close>

text \<open>
  Code units are 8-bit characters, read as the first 256 code points of Unicode. On
  these, \<open>trim\<close> removes tab, line feed, vertical tab, form feed, carriage return,
  space and no-break space, and \<open>toLowerCase\<close> maps A-Z and the capital letters
  U+00C0-U+00DE (but the multiplication sign U+00D7) 32 places up.
\<close>

definition code :: "char \<Rightarrow> nat" where
  "code c = of_char c"

definition is_space :: "char \<Rightarrow> bool" where
  "is_space c = (code c \<in> {9, 10, 11, 12, 13, 32, 160})"

definition is_digit :: "char \<Rightarrow> bool" where
  "is_digit c = (48 \<le> code c \<and> code c \<le> 57)"

definition trim :: "string \<Rightarrow> string" where
  "trim s = rev (dropWhile is_space (rev (dropWhile is_space s)))"

definition lower_char :: "char \<Rightarrow> char" where
  "lower_char c =
     (if (65 \<le> code c \<and> code c \<le> 90) \<or> (192 \<le> code c \<and> code c \<le> 222 \<and> code c \<noteq> 215)
      then char_of (code c + 32) else c)"

definition toLowerCase :: "string \<Rightarrow> string" where
  "toLowerCase s = map lower_char s"

definition isYesConfirmation :: "string \<Rightarrow> bool" where
  "isYesConfirmation message =
     (let normalized = toLowerCase (trim message)
      in normalized = ''yes'' \<or> normalized = ''y'' \<or> normalized = ''ja'' \<or> normalized = ''j'')"

definition isStopCommand :: "string \<Rightarrow> bool" where
  "isStopCommand message =
     (let normalized = toLowerCase (trim message)
      in normalized = ''stop'' \<or> normalized = ''unsubscribe'' \<or> normalized = ''avsluta'')"

definition isHelpCommand :: "string \<Rightarrow> bool" where
  "isHelpCommand message =
     (let normalized = toLowerCase (trim message)
      in normalized = ''help'' \<or> normalized = ''hj'' @ [CHR 0xE4] @ ''lp'' \<or> normalized = ''info'')"

definition isMoreCommand :: "string \<Rightarrow> bool" where
  "isMoreCommand message =
     (let normalized = toLowerCase (trim message)
      in normalized = ''more'' \<or> normalized = ''more info'' \<or> normalized = ''tell me more'')"

definition isLocationQueryCommand :: "string \<Rightarrow> bool" where
  "isLocationQueryCommand message =
     (let normalized = toLowerCase (trim message)
      in normalized = ''where am i'' \<or>
         normalized = ''where am i?'' \<or>
         normalized = ''var '' @ [CHR 0xE4] @ ''r jag'' \<or>
         normalized = ''var '' @ [CHR 0xE4] @ ''r jag?'' \<or>
         normalized = ''my location'' \<or>
         normalized = ''min position'')"

section \<open>Regular expressions\<close>

text \<open>
  The patterns of the services, as a datatype, with the backtracking semantics of
  JavaScript: the matcher lists the ways a pattern can match at a position in the
  order the engine tries them (a quantifier first takes all it can), so the first way
  is the match the engine reports. Quantified atoms are single characters in every
  pattern of the source, which is what \<open>Star\<close> takes. A matcher state is the
  position, the rest of the text and the groups captured so far.
\<close>

datatype rx =
    Ch "char \<Rightarrow> bool"
  | Star "char \<Rightarrow> bool"
  | Opt rx
  | Seq rx rx
  | Alt rx rx
  | Grp nat rx
  | Bol
  | Eol
  | Eps

type_synonym captures = "(nat \<times> string) list"

type_synonym mstate = "nat \<times> string \<times> captures"

fun rx_step :: "rx \<Rightarrow> mstate \<Rightarrow> mstate list" where
  "rx_step (Ch P) (i, s, c) =
     (case s of [] \<Rightarrow> [] | x # xs \<Rightarrow> if P x then [(Suc i, xs, c)] else [])"
| "rx_step (Star P) (i, s, c) =
     map (\<lambda>k. (i + k, drop k s, c)) (rev [0..<Suc (length (takeWhile P s))])"
| "rx_step (Opt r) st = rx_step r st @ [st]"
| "rx_step (Seq r1 r2) st = concat (map (rx_step r2) (rx_step r1 st))"
| "rx_step (Alt r1 r2) st = rx_step r1 st @ rx_step r2 st"
| "rx_step (Grp n r) (i, s, c) =
     map (\<lambda>(j, s', c'). (j, s', (n, take (j - i) s) # c')) (rx_step r (i, s, c))"
| "rx_step Bol (i, s, c) = (if i = 0 then [(i, s, c)] else [])"
| "rx_step Eol (i, s, c) = (if s = [] then [(i, s, c)] else [])"
| "rx_step Eps st = [st]"

text \<open>\<open>text.match(pattern)\<close>: the first position with a match, and its groups.\<close>

fun rx_search :: "rx \<Rightarrow> nat \<Rightarrow> string \<Rightarrow> captures option" where
  "rx_search r i [] =
     (case rx_step r (i, [], []) of [] \<Rightarrow> None | (j, s', c) # _ \<Rightarrow> Some c)"
| "rx_search r i (x # xs) =
     (case rx_step r (i, x # xs, []) of
        [] \<Rightarrow> rx_search r (Suc i) xs
      | (j, s', c) # _ \<Rightarrow> Some c)"

definition rx_match :: "string \<Rightarrow> rx \<Rightarrow> captures option" where
  "rx_match text r = rx_search r 0 text"

text \<open>
  Characters under the flag \<open>i\<close> are compared by their canonical form, the upper
  case when that is one code unit: a-z and U+00E0-U+00FE (but the division sign) lie
  32 above theirs, the micro sign and y with diaeresis have theirs beyond U+00FF.
\<close>

definition canonicalize :: "char \<Rightarrow> nat" where
  "canonicalize c =
     (if (97 \<le> code c \<and> code c \<le> 122) \<or> (224 \<le> code c \<and> code c \<le> 254 \<and> code c \<noteq> 247)
      then code c - 32
      else if code c = 181 then 924
      else if code c = 255 then 376
      else code c)"

definition chr :: "char \<Rightarrow> rx" where
  "chr c = Ch (\<lambda>x. x = c)"

definition chr_i :: "char \<Rightarrow> rx" where
  "chr_i c = Ch (\<lambda>x. canonicalize x = canonicalize c)"

definition one_of :: "string \<Rightarrow> char \<Rightarrow> bool" where
  "one_of cs x = (x \<in> set cs)"

definition one_of_i :: "string \<Rightarrow> char \<Rightarrow> bool" where
  "one_of_i cs x = (canonicalize x \<in> set (map canonicalize cs))"

definition any_char :: "char \<Rightarrow> bool" where
  "any_char x = (code x \<noteq> 10 \<and> code x \<noteq> 13)"

definition seqs :: "rx list \<Rightarrow> rx" where
  "seqs rs = foldr Seq rs Eps"

definition lit_i :: "string \<Rightarrow> rx" where
  "lit_i s = seqs (map chr_i s)"

definition alts :: "rx list \<Rightarrow> rx" where
  "alts rs = (case rs of [] \<Rightarrow> Eps | _ \<Rightarrow> foldr Alt (butlast rs) (last rs))"

section \<open>GPS parsing (services/gpsService.ts)\<close>

record Coordinates =
  c_lat :: rat
  c_lon :: rat

datatype location_source = google_maps | apple_maps | raw_coords | plus_code

record ParsedLocation =
  coordinates :: Coordinates
  source :: location_source
  originalText :: string

text \<open>\<open>s.replace(',', '.')\<close>: the first comma becomes a point.\<close>

fun replace_comma :: "string \<Rightarrow> string" where
  "replace_comma [] = []"
| "replace_comma (x # xs) = (if x = CHR '','' then CHR ''.'' # xs else x # replace_comma xs)"

definition decimal :: "string \<Rightarrow> nat" where
  "decimal ds = foldl (\<lambda>n c. 10 * n + (code c - 48)) 0 ds"

text \<open>
  \<open>parseFloat\<close> on a sign, digits, and a point with digits: the number written, as a
  rational; \<open>None\<close> is NaN. Exponents and \<open>Infinity\<close> are left out: the texts it is
  given are groups of the patterns below, made of a sign, digits and one separator.
\<close>

definition parseFloat :: "string \<Rightarrow> rat option" where
  "parseFloat s =
     (let (negative, body) =
            (case s of
               [] \<Rightarrow> (False, [])
             | x # xs \<Rightarrow> if x = CHR ''-'' then (True, xs)
                         else if x = CHR ''+'' then (False, xs) else (False, s));
          whole = takeWhile is_digit body;
          after = dropWhile is_digit body;
          frac = (case after of
                    [] \<Rightarrow> []
                  | x # xs \<Rightarrow> if x = CHR ''.'' then takeWhile is_digit xs else []);
          magnitude = of_nat (decimal whole) + of_nat (decimal frac) / 10 ^ length frac
      in if whole = [] \<and> frac = [] then None
         else Some (if negative then - magnitude else magnitude))"

definition isValidCoordinate :: "rat \<Rightarrow> rat \<Rightarrow> bool" where
  "isValidCoordinate la lo = (la \<ge> -90 \<and> la \<le> 90 \<and> lo \<ge> -180 \<and> lo \<le> 180)"

text \<open>\<open>-?\d+[.,]?\d*\<close>, the number of every pattern.\<close>

definition number_rx :: rx where
  "number_rx = seqs [Opt (chr CHR ''-''), Ch is_digit, Star is_digit,
                     Opt (Ch (one_of ''.,'')), Star is_digit]"

definition google_q_rx :: rx where
  "google_q_rx = seqs [lit_i ''maps.google.com'', Star any_char, Ch (one_of ''?&''),
                       lit_i ''q='', Grp 1 number_rx, chr CHR '','', Grp 2 number_rx]"

definition google_at_rx :: rx where
  "google_at_rx = seqs [lit_i ''google.com/maps'', Star any_char, chr CHR ''@'',
                        Grp 1 number_rx, chr CHR '','', Grp 2 number_rx]"

definition apple_rx :: rx where
  "apple_rx = seqs [lit_i ''maps.apple.com'', Star any_char, Ch (one_of ''?&''),
                    Alt (lit_i ''ll'') (lit_i ''coordinate''), chr CHR ''='',
                    Grp 1 number_rx, chr CHR '','', Grp 2 number_rx]"

definition simple_rx :: rx where
  "simple_rx = seqs [Bol, Grp 1 number_rx, Star is_space, chr CHR '','', Star is_space,
                     Grp 2 number_rx, Eol]"

definition degrees_rx :: rx where
  "degrees_rx = seqs [Grp 1 number_rx, Opt (chr (CHR 0xB0)), Star is_space,
                      Ch (one_of_i ''NS''), Opt (chr CHR '',''), Star is_space,
                      Grp 2 number_rx, Opt (chr (CHR 0xB0)), Star is_space,
                      Ch (one_of_i (''EW'' @ [CHR 0xD6] @ ''V''))]"

definition latlon_rx :: rx where
  "latlon_rx = seqs [lit_i ''lat'', Star (one_of_i ''itude''), Star is_space,
                     Opt (chr CHR '':''), Star is_space, Grp 1 number_rx,
                     Ch (\<lambda>x. x = CHR '','' \<or> is_space x), Star (\<lambda>x. x = CHR '','' \<or> is_space x),
                     lit_i ''lon'', Star (one_of_i ''gitude''), Star is_space,
                     Opt (chr CHR '':''), Star is_space, Grp 2 number_rx]"

definition coordPatterns :: "rx list" where
  "coordPatterns = [simple_rx, degrees_rx, latlon_rx]"

text \<open>
  The two numbers of a match, \<open>parseFloat(match[k].replace(',', '.'))\<close>. Both groups
  take part in every match of the patterns above and begin with a digit, so neither
  is undefined nor NaN; \<open>None\<close> stands for those cases.
\<close>

definition match_numbers :: "captures \<Rightarrow> (rat \<times> rat) option" where
  "match_numbers m =
     (case (map_of m 1, map_of m 2) of
        (Some g1, Some g2) \<Rightarrow>
          (case (parseFloat (replace_comma g1), parseFloat (replace_comma g2)) of
             (Some la, Some lo) \<Rightarrow> Some (la, lo)
           | _ \<Rightarrow> None)
      | _ \<Rightarrow> None)"

fun first_valid :: "string \<Rightarrow> rx list \<Rightarrow> ParsedLocation option" where
  "first_valid text [] = None"
| "first_valid text (pattern # patterns) =
     (case rx_match text pattern of
        None \<Rightarrow> first_valid text patterns
      | Some m \<Rightarrow>
          (case match_numbers m of
             None \<Rightarrow> first_valid text patterns
           | Some (la, lo) \<Rightarrow>
               if isValidCoordinate la lo
               then Some \<lparr>coordinates = \<lparr>c_lat = la, c_lon = lo\<rparr>,
                          source = raw_coords, originalText = text\<rparr>
               else first_valid text patterns))"

definition located :: "location_source \<Rightarrow> string \<Rightarrow> captures \<Rightarrow> ParsedLocation option" where
  "located src text m =
     (case match_numbers m of
        None \<Rightarrow> None
      | Some (la, lo) \<Rightarrow>
          Some \<lparr>coordinates = \<lparr>c_lat = la, c_lon = lo\<rparr>, source = src, originalText = text\<rparr>)"

definition parseLocation :: "string \<Rightarrow> ParsedLocation option" where
  "parseLocation message =
     (let text = trim message;
          googleMatch = (case rx_match text google_q_rx of
                           Some m \<Rightarrow> Some m
                         | None \<Rightarrow> rx_match text google_at_rx)
      in case googleMatch of
           Some m \<Rightarrow> located google_maps text m
         | None \<Rightarrow>
             (case rx_match text apple_rx of
                Some m \<Rightarrow> located apple_maps text m
              | None \<Rightarrow> first_valid text coordPatterns))"

definition hasLocation :: "string \<Rightarrow> bool" where
  "hasLocation message = (parseLocation message \<noteq> None)"

section \<open>Place search parsing (services/openStreetMapService.ts)\<close>

datatype POICategory =
    gas_station | restaurant | cafe | supermarket | hospital | pharmacy
  | hotel | camping | shelter | emergency | parking | atm

text \<open>
  The table of \<open>parseCategoryFromQuery\<close>, in the order of its entries. Each key is
  a pattern of literal alternatives separated by bars, compiled with the flag \<open>i\<close>.
\<close>

definition category_patterns :: "(string \<times> POICategory) list" where
  "category_patterns =
     [(''bensin|gas|tanken|fuel'', gas_station),
      (''restaurang|restaurant|mat|food|'' @ [CHR 0xE4] @ ''ta|eat'', restaurant),
      (''caf'' @ [CHR 0xE9] @ ''|cafe|kaffe|coffee'', cafe),
      (''aff'' @ [CHR 0xE4] @ ''r|butik|supermarket|mataff'' @ [CHR 0xE4] @ ''r|shop|store'',
         supermarket),
      (''sjukhus|hospital|l'' @ [CHR 0xE4] @ ''kare|doctor|akuten|emergency room'', hospital),
      (''apotek|pharmacy|medicin|medicine'', pharmacy),
      (''hotell|hotel|boende|logi|accommodation'', hotel),
      (''camping|campground|husvagn|caravan'', camping),
      (''stuga|skydd|shelter|hut|cabin'', shelter),
      (''n'' @ [CHR 0xF6] @ ''d|emergency|sos|hj'' @ [CHR 0xE4] @ ''lp|help'', emergency),
      (''parkering|parking|parkera'', parking),
      (''bankomat|atm|kontanter|cash'', atm)]"

fun split_bar :: "string \<Rightarrow> string list" where
  "split_bar [] = [[]]"
| "split_bar (x # xs) =
     (if x = CHR ''|'' then [] # split_bar xs
      else (case split_bar xs of [] \<Rightarrow> [[x]] | w # ws \<Rightarrow> (x # w) # ws))"

definition alternatives_rx :: "string \<Rightarrow> rx" where
  "alternatives_rx pattern = alts (map lit_i (split_bar pattern))"

fun first_category :: "string \<Rightarrow> (string \<times> POICategory) list \<Rightarrow> POICategory option" where
  "first_category normalized [] = None"
| "first_category normalized ((pattern, category) # rest) =
     (if rx_match normalized (alternatives_rx pattern) \<noteq> None then Some category
      else first_category normalized rest)"

definition parseCategoryFromQuery :: "string \<Rightarrow> POICategory option" where
  "parseCategoryFromQuery query =
     (let normalized = toLowerCase query in first_category normalized category_patterns)"

definition digits_rx :: rx where
  "digits_rx = seqs [Ch is_digit, Star is_digit]"

definition spaces_rx :: rx where
  "spaces_rx = seqs [Ch is_space, Star is_space]"

text \<open>The patterns of \<open>parseRadiusFromQuery\<close>, each with whether its source has \<open>mile\<close>.\<close>

definition radius_patterns :: "(rx \<times> bool) list" where
  "radius_patterns =
     [(seqs [lit_i ''inom'', spaces_rx, Grp 1 digits_rx, Star is_space, lit_i ''km''], False),
      (seqs [lit_i ''within'', spaces_rx, Grp 1 digits_rx, Star is_space, lit_i ''km''], False),
      (seqs [Grp 1 digits_rx, Star is_space, lit_i ''km'', spaces_rx, lit_i ''radie''], False),
      (seqs [Grp 1 digits_rx, Star is_space, lit_i ''km'', spaces_rx, lit_i ''radius''], False),
      (seqs [Grp 1 digits_rx, Star is_space, lit_i ''mile''], True)]"

fun first_radius :: "string \<Rightarrow> (rx \<times> bool) list \<Rightarrow> rat" where
  "first_radius query [] = 10"
| "first_radius query ((pattern, miles) # rest) =
     (case rx_match query pattern of
        None \<Rightarrow> first_radius query rest
      | Some m \<Rightarrow>
          (case map_of m 1 of
             None \<Rightarrow> first_radius query rest
           | Some g \<Rightarrow>
               let v = of_nat (decimal g) in if miles then v * 1.6 else v))"

definition parseRadiusFromQuery :: "string \<Rightarrow> rat" where
  "parseRadiusFromQuery query = first_radius query radius_patterns"

section \<open>Ledger and profile reads of the dispatch (UserService)\<close>

text \<open>
  \<open>logTransaction\<close>: an INSERT into \<open>transactions\<close>, refused when the phone number
  has no row in \<open>users\<close>; an empty description or payment id is stored as null.
\<close>

definition or_null :: "string option \<Rightarrow> string option" where
  "or_null v = (case v of None \<Rightarrow> None | Some s \<Rightarrow> if truthy s then Some s else None)"

definition logTransaction ::
  "database \<Rightarrow> string \<Rightarrow> transaction_type \<Rightarrow> int \<Rightarrow> string option \<Rightarrow> string option
     \<Rightarrow> exn + database" where
  "logTransaction d phoneNumber ty creditsDelta descr stripePaymentId =
     (if users d phoneNumber = None then Inl ForeignKeyViolation
      else Inr (d\<lparr>transactions := transactions d @
                  [\<lparr>tx_phone_number = phoneNumber, tx_type = ty, credits_delta = creditsDelta,
                    description = or_null descr,
                    stripe_payment_id = or_null stripePaymentId\<rparr>]\<rparr>))"

definition deactivateUser :: "database \<Rightarrow> string \<Rightarrow> database" where
  "deactivateUser d phoneNumber = update_user d phoneNumber (\<lambda>u. u\<lparr>status := inactive\<rparr>)"

text \<open>
  \<open>getSelectedCategories\<close>: the column holds a JSON array; \<open>None\<close> stands for
  null, the empty text and text that does not parse, which all give the default.
\<close>

definition getSelectedCategories :: "database \<Rightarrow> string \<Rightarrow> string list" where
  "getSelectedCategories d phoneNumber =
     (case getUser d phoneNumber of
        None \<Rightarrow> [''outdoor'']
      | Some u \<Rightarrow> (case selected_categories u of None \<Rightarrow> [''outdoor''] | Some cs \<Rightarrow> cs))"

definition getActiveCustomAgent :: "database \<Rightarrow> string \<Rightarrow> custom_agent option" where
  "getActiveCustomAgent d phoneNumber =
     (case getUser d phoneNumber of
        None \<Rightarrow> None
      | Some u \<Rightarrow>
          (case active_agent_id u of
             None \<Rightarrow> None
           | Some i \<Rightarrow>
               if i = 0 then None
               else find (\<lambda>a. agent_id a = i \<and> agent_active a) (custom_agents d)))"

section \<open>Dispatch core (the SMS route)\<close>

text \<open>
  What the dispatch sends. A reply that is a fixed text of the source, or a text a
  collaborator produced, is \<open>Plain\<close>; the templates of the source are constructors
  that carry what the template interpolates.
\<close>

datatype nearest_type = near_cabin | near_emergency

datatype sms_body =
    Plain string
  | NoCreditsNotice lang int
  | HelpText lang int
  | ImageErrorText lang
  | NoSavedLocation
  | LastKnownPosition rat rat
  | PositionSaved lang Coordinates
  | ShareLocationFirst lang POICategory

text \<open>
  The collaborators of the dispatch, as the functions it calls: the AI service, the
  map search, the weather service, the static points of interest, and the SMS
  gateway (whether it accepts a message). A call that throws returns \<open>Inl\<close>. The
  clock is read once for the handling of a message.
\<close>

record 'r collaborators =
  handleWeatherQuery :: "string \<Rightarrow> exn + string option"
  generateResponse ::
    "string \<Rightarrow> string list \<Rightarrow> string option \<Rightarrow> string list \<Rightarrow> lang \<Rightarrow> exn + string"
  generateResponseWithCustomPrompt ::
    "string \<Rightarrow> string list \<Rightarrow> string option \<Rightarrow> string \<Rightarrow> lang \<Rightarrow> exn + string"
  expandResponse :: "string \<Rightarrow> string \<Rightarrow> string list \<Rightarrow> exn + string"
  analyzeImage :: "string \<Rightarrow> string \<Rightarrow> string list \<Rightarrow> lang \<Rightarrow> exn + string"
  searchNearby :: "Coordinates \<Rightarrow> POICategory \<Rightarrow> rat \<Rightarrow> exn + 'r"
  formatSearchResult :: "'r \<Rightarrow> lang \<Rightarrow> string"
  getWeatherByCoordinates :: "rat \<Rightarrow> rat \<Rightarrow> lang \<Rightarrow> exn + string"
  formatNearestResponse :: "Coordinates \<Rightarrow> nearest_type \<Rightarrow> lang \<Rightarrow> string"
  delivers :: "string \<Rightarrow> sms_body \<Rightarrow> bool"
  clock :: int

record world =
  db :: database
  outbox :: "(string \<times> sms_body \<times> lang) list"

text \<open>
  An asynchronous function of the source: it runs on the world and either returns or
  throws, and what it wrote before throwing stays written.
\<close>

type_synonym 'a action = "world \<Rightarrow> (exn + 'a) \<times> world"

definition ret :: "'a \<Rightarrow> 'a action" where
  "ret x = (\<lambda>w. (Inr x, w))"

definition await :: "'a action \<Rightarrow> ('a \<Rightarrow> 'b action) \<Rightarrow> 'b action" where
  "await m k = (\<lambda>w. case m w of (Inl e, w') \<Rightarrow> (Inl e, w') | (Inr x, w') \<Rightarrow> k x w')"

definition try_catch :: "'a action \<Rightarrow> (exn \<Rightarrow> 'a action) \<Rightarrow> 'a action" where
  "try_catch m h = (\<lambda>w. case m w of (Inl e, w') \<Rightarrow> h e w' | (Inr x, w') \<Rightarrow> (Inr x, w'))"

definition call :: "exn + 'a \<Rightarrow> 'a action" where
  "call r = (\<lambda>w. (r, w))"

definition query :: "(database \<Rightarrow> 'a) \<Rightarrow> 'a action" where
  "query f = (\<lambda>w. (Inr (f (db w)), w))"

definition exec :: "(database \<Rightarrow> database) \<Rightarrow> unit action" where
  "exec f = (\<lambda>w. (Inr (), w\<lparr>db := f (db w)\<rparr>))"

definition attempt :: "(database \<Rightarrow> exn + database) \<Rightarrow> unit action" where
  "attempt f = (\<lambda>w. case f (db w) of Inl e \<Rightarrow> (Inl e, w) | Inr d' \<Rightarrow> (Inr (), w\<lparr>db := d'\<rparr>))"

definition deduct :: "string \<Rightarrow> int \<Rightarrow> bool action" where
  "deduct phoneNumber credits =
     (\<lambda>w. case deductCredits (db w) phoneNumber credits of
             Inl e \<Rightarrow> (Inl e, w)
           | Inr (ok, d') \<Rightarrow> (Inr ok, w\<lparr>db := d'\<rparr>))"

text \<open>
  \<open>twilioService.sendSMS\<close>: the message goes out, or the call throws. The outbox
  keeps the body as the caller gave it, before the gateway's text normalization.
\<close>

definition sendSMS :: "'r collaborators \<Rightarrow> string \<Rightarrow> sms_body \<Rightarrow> lang \<Rightarrow> unit action" where
  "sendSMS env to body language =
     (\<lambda>w. if delivers env to body
           then (Inr (), w\<lparr>outbox := outbox w @ [(to, body, language)]\<rparr>)
           else (Inl SendFailure, w))"

text \<open>
  \<open>s.includes(keyword)\<close> on code units. The dispatch file spells its Swedish keywords
  with code units beyond U+00FF (its \<open>a\<close> with diaeresis is the two units U+221A,
  U+00A7), so keywords are lists of code units and a text is compared by its units.
\<close>

fun includes_units :: "nat list \<Rightarrow> nat list \<Rightarrow> bool" where
  "includes_units [] k = (k = [])"
| "includes_units (x # xs) k = (take (length k) (x # xs) = k \<or> includes_units xs k)"

definition units :: "string \<Rightarrow> nat list" where
  "units s = map code s"

definition str_includes :: "string \<Rightarrow> nat list \<Rightarrow> bool" where
  "str_includes s keyword = includes_units (units s) keyword"

definition kw_vader :: "nat list" where
  "kw_vader = [0x76, 0x221A, 0xA7, 0x64, 0x65, 0x72]"

definition kw_narmaste :: "nat list" where
  "kw_narmaste = [0x6E, 0x221A, 0xA7, 0x72, 0x6D, 0x61, 0x73, 0x74, 0x65]"

definition kw_nod :: "nat list" where
  "kw_nod = [0x6E, 0x221A, 0x2202, 0x64]"

definition kw_hjalp :: "nat list" where
  "kw_hjalp = [0x68, 0x6A, 0x221A, 0xA7, 0x6C, 0x70]"

definition kw_var_ar :: "nat list" where
  "kw_var_ar = [0x76, 0x61, 0x72, 0x20, 0x221A, 0xA7, 0x72]"

definition kw_sok :: "nat list" where
  "kw_sok = [0x73, 0x221A, 0x2202, 0x6B]"

definition placeKeywords :: "nat list list" where
  "placeKeywords =
     [kw_narmaste, units ''nearest'', units ''hitta'', units ''find'', kw_var_ar,
      units ''where is'', units ''show me'', units ''visa'', kw_sok, units ''search'',
      units ''leta'', units ''look for'']"

text \<open>The character class by which \<open>handlePlaceSearch\<close> takes a message for Swedish.\<close>

definition swedish_class :: "nat list" where
  "swedish_class = [0x221A, 0x2022, 0x221A, 0xA7, 0x221A, 0x2202, 0x221A, 0xD6, 0x221A, 0xD1,
                    0x221A, 0xF1]"

definition reply_language :: "string \<Rightarrow> lang" where
  "reply_language messageBody =
     (if list_ex (\<lambda>u. u \<in> set swedish_class) (units messageBody) then sv else en)"

definition stop_text :: "lang \<Rightarrow> string" where
  "stop_text language =
     (case language of
        sv \<Rightarrow> ''Du har avregistrerats. Tack for att du anvant WAVEE. For att aktivera igen, besok var hemsida och kop ett nytt paket.''
      | en \<Rightarrow> ''You have been unsubscribed. Thank you for using WAVEE. To reactivate, visit our website and purchase a new package.'')"

definition no_previous_text :: string where
  "no_previous_text = ''No previous response to expand. Please ask a question first.''"

definition expand_failed_text :: string where
  "expand_failed_text =
     ''Sorry, I couldn'' @ [CHR 0x27] @ ''t expand the previous response. Please ask a specific question.''"

definition handleNoCredits :: "'r collaborators \<Rightarrow> string \<Rightarrow> lang \<Rightarrow> unit action" where
  "handleNoCredits env phoneNumber language =
     try_catch
       (await (query (\<lambda>d. getUser d phoneNumber)) (\<lambda>user.
        sendSMS env phoneNumber
          (NoCreditsNotice language
             (case user of None \<Rightarrow> 0 | Some u \<Rightarrow> sint (credits_remaining u)))
          language))
       (\<lambda>error. ret ())"

definition handleMoreCommand :: "'r collaborators \<Rightarrow> string \<Rightarrow> lang \<Rightarrow> unit action" where
  "handleMoreCommand env phoneNumber language =
     try_catch
       (await (query (\<lambda>d. getContext d phoneNumber (clock env))) (\<lambda>context.
        case lastAiResponse context of
          None \<Rightarrow> sendSMS env phoneNumber (Plain no_previous_text) sv
        | Some lastReply \<Rightarrow>
            if length (ctx_messages context) = 0
            then sendSMS env phoneNumber (Plain no_previous_text) sv
            else
              let lastUserMessage = last (ctx_messages context) in
              await (query (\<lambda>d. getSelectedCategories d phoneNumber)) (\<lambda>userCategories.
              await (call (expandResponse env lastReply lastUserMessage userCategories))
                (\<lambda>expandedResponse.
              await (attempt (\<lambda>d. updateSession d phoneNumber None expandedResponse (clock env)))
                (\<lambda>_.
              sendSMS env phoneNumber (Plain expandedResponse) sv)))))
       (\<lambda>error. sendSMS env phoneNumber (Plain expand_failed_text) sv)"

definition handleImageAnalysis ::
  "'r collaborators \<Rightarrow> string \<Rightarrow> string \<Rightarrow> string \<Rightarrow> lang \<Rightarrow> unit action" where
  "handleImageAnalysis env phoneNumber imageUrl userQuestion language =
     try_catch
       (await (query (\<lambda>d. hasCredits d phoneNumber 1)) (\<lambda>enough.
        if \<not> enough then handleNoCredits env phoneNumber language
        else
          await (query (\<lambda>d. getSelectedCategories d phoneNumber)) (\<lambda>userCategories.
          await (call (analyzeImage env imageUrl userQuestion userCategories language))
            (\<lambda>aiResponse.
          await (attempt (\<lambda>d. updateSession d phoneNumber
                   (Some (''[Image] '' @ userQuestion)) aiResponse (clock env))) (\<lambda>_.
          await (deduct phoneNumber 1) (\<lambda>_.
          await (attempt (\<lambda>d. logTransaction d phoneNumber usage (- 1)
                   (Some ''AI conversation (image analysis)'') None)) (\<lambda>_.
          sendSMS env phoneNumber (Plain aiResponse) language)))))))
       (\<lambda>error. sendSMS env phoneNumber (ImageErrorText language) language)"

definition handleLocationQuery :: "'r collaborators \<Rightarrow> string \<Rightarrow> lang \<Rightarrow> unit action" where
  "handleLocationQuery env phoneNumber language =
     try_catch
       (await (query (\<lambda>d. getLastLocation d phoneNumber (clock env))) (\<lambda>lastLocation.
        case lastLocation of
          None \<Rightarrow> sendSMS env phoneNumber NoSavedLocation sv
        | Some (la, lo) \<Rightarrow> sendSMS env phoneNumber (LastKnownPosition la lo) sv))
       (\<lambda>error. sendSMS env phoneNumber
          (Plain ''Error retrieving your location. Please try again.'') sv)"

definition handleStopCommand :: "'r collaborators \<Rightarrow> string \<Rightarrow> lang \<Rightarrow> unit action" where
  "handleStopCommand env phoneNumber language =
     try_catch
       (await (exec (\<lambda>d. deactivateUser d phoneNumber)) (\<lambda>_.
        sendSMS env phoneNumber (Plain (stop_text language)) language))
       (\<lambda>error. ret ())"

definition handleHelpCommand :: "'r collaborators \<Rightarrow> string \<Rightarrow> lang \<Rightarrow> unit action" where
  "handleHelpCommand env phoneNumber language =
     try_catch
       (await (query (\<lambda>d. getUser d phoneNumber)) (\<lambda>user.
        sendSMS env phoneNumber
          (HelpText language
             (case user of None \<Rightarrow> 0 | Some u \<Rightarrow> sint (credits_remaining u)))
          language))
       (\<lambda>error. ret ())"

definition gps_error_text :: string where
  "gps_error_text = ''Could not process your location. Please try again.''"

definition handleGPSMessage ::
  "'r collaborators \<Rightarrow> string \<Rightarrow> ParsedLocation \<Rightarrow> string \<Rightarrow> lang \<Rightarrow> unit action" where
  "handleGPSMessage env phoneNumber location originalMessage language0 =
     try_catch
       (let coords = coordinates location in
        await (exec (\<lambda>d. saveLocation d phoneNumber (c_lat coords) (c_lon coords) (clock env)))
          (\<lambda>_.
        let followUp = toLowerCase originalMessage;
            language = (if str_includes followUp kw_vader \<or> str_includes followUp kw_narmaste
                        then sv else en)
        in case parseCategoryFromQuery followUp of
             Some category \<Rightarrow>
               let radius = parseRadiusFromQuery followUp in
               await (call (searchNearby env coords category radius)) (\<lambda>result.
               let response = formatSearchResult env result language in
               sendSMS env phoneNumber (Plain response) sv)
           | None \<Rightarrow>
               await
                 (if str_includes followUp kw_vader \<or> str_includes followUp (units ''weather'')
                  then await (call (getWeatherByCoordinates env (c_lat coords) (c_lon coords)
                                      language)) (\<lambda>text. ret (Plain text))
                  else if str_includes followUp kw_narmaste
                        \<or> str_includes followUp (units ''nearest'')
                        \<or> str_includes followUp (units ''skydd'')
                        \<or> str_includes followUp (units ''shelter'')
                        \<or> str_includes followUp (units ''stuga'')
                        \<or> str_includes followUp (units ''cabin'')
                  then ret (Plain (formatNearestResponse env coords near_cabin language))
                  else if str_includes followUp kw_nod
                        \<or> str_includes followUp (units ''emergency'')
                        \<or> str_includes followUp kw_hjalp
                  then ret (Plain (formatNearestResponse env coords near_emergency language))
                  else ret (PositionSaved language coords))
                 (\<lambda>response. sendSMS env phoneNumber response sv)))
       (\<lambda>error. sendSMS env phoneNumber (Plain gps_error_text) sv)"

definition handlePlaceSearch ::
  "'r collaborators \<Rightarrow> string \<Rightarrow> string \<Rightarrow> lang \<Rightarrow> bool action" where
  "handlePlaceSearch env phoneNumber messageBody language0 =
     try_catch
       (let hasPlaceKeyword =
              list_ex (\<lambda>keyword. str_includes (toLowerCase messageBody) keyword) placeKeywords
        in if \<not> hasPlaceKeyword then ret False
           else
             case parseCategoryFromQuery messageBody of
               None \<Rightarrow> ret False
             | Some category \<Rightarrow>
                 await (query (\<lambda>d. getContext d phoneNumber (clock env))) (\<lambda>context.
                 await (query (\<lambda>d. getLastLocation d phoneNumber (clock env))) (\<lambda>lastLocation.
                 case lastLocation of
                   None \<Rightarrow>
                     let language = reply_language messageBody in
                     await (sendSMS env phoneNumber (ShareLocationFirst language category) sv)
                       (\<lambda>_. ret True)
                 | Some (la, lo) \<Rightarrow>
                     let radius = parseRadiusFromQuery messageBody in
                     await (call (searchNearby env \<lparr>c_lat = la, c_lon = lo\<rparr> category radius))
                       (\<lambda>result.
                     let language = reply_language messageBody;
                         response = formatSearchResult env result language
                     in await (query (\<lambda>d. hasCredits d phoneNumber 1)) (\<lambda>enough.
                        if \<not> enough
                        then await (handleNoCredits env phoneNumber sv) (\<lambda>_. ret True)
                        else
                          await (deduct phoneNumber 1) (\<lambda>_.
                          await (attempt (\<lambda>d. logTransaction d phoneNumber usage (- 1)
                                   (Some ''Place search'') None)) (\<lambda>_.
                          await (attempt (\<lambda>d. updateSession d phoneNumber (Some messageBody)
                                   response (clock env))) (\<lambda>_.
                          await (sendSMS env phoneNumber (Plain response) sv) (\<lambda>_.
                          ret True)))))))))
       (\<lambda>error. ret False)"

definition generic_error_text :: string where
  "generic_error_text =
     ''Sorry, I encountered an error processing your request. Please try again.''"

text \<open>
  The test \<open>mediaUrl && mediaType?.startsWith('image/')\<close>: the URL of the image
  attached to the message, when there is one.
\<close>

definition image_attachment :: "string option \<Rightarrow> string option \<Rightarrow> string option" where
  "image_attachment mediaUrl mediaType =
     (case mediaUrl of
        None \<Rightarrow> None
      | Some url \<Rightarrow>
          if truthy url \<and> (case mediaType of
                             None \<Rightarrow> False
                           | Some t \<Rightarrow> take (length ''image/'') t = ''image/'')
          then Some url else None)"

text \<open>
  \<open>handleActiveUserMessage\<close>: the branches in the order of the source, the first
  that applies ending the handling.
\<close>

definition handleActiveUserMessage ::
  "'r collaborators \<Rightarrow> string \<Rightarrow> string \<Rightarrow> string option \<Rightarrow> string option \<Rightarrow> lang
     \<Rightarrow> unit action" where
  "handleActiveUserMessage env phoneNumber messageBody mediaUrl mediaType language =
     try_catch
       (case image_attachment mediaUrl mediaType of
          Some url \<Rightarrow>
            handleImageAnalysis env phoneNumber url
              (if truthy messageBody then messageBody else ''What is this?'') language
        | None \<Rightarrow>
        if \<not> truthy messageBody \<or> length (trim messageBody) = 0 then ret ()
        else if isStopCommand messageBody then handleStopCommand env phoneNumber language
        else if isHelpCommand messageBody then handleHelpCommand env phoneNumber language
        else
          case parseLocation messageBody of
            Some parsedLocation \<Rightarrow>
              handleGPSMessage env phoneNumber parsedLocation messageBody language
          | None \<Rightarrow>
          await (handlePlaceSearch env phoneNumber messageBody language) (\<lambda>placeSearchResult.
          if placeSearchResult then ret ()
          else if isLocationQueryCommand messageBody
          then handleLocationQuery env phoneNumber language
          else if isMoreCommand messageBody then
            await (query (\<lambda>d. hasCredits d phoneNumber 1)) (\<lambda>enough.
            if \<not> enough then handleNoCredits env phoneNumber language
            else
              await (handleMoreCommand env phoneNumber language) (\<lambda>_.
              await (deduct phoneNumber 1) (\<lambda>_.
              attempt (\<lambda>d. logTransaction d phoneNumber usage (- 1)
                         (Some ''Expanded response (MORE)'') None))))
          else
            await (call (handleWeatherQuery env messageBody)) (\<lambda>weatherResponse.
            case (case weatherResponse of
                    None \<Rightarrow> None
                  | Some text \<Rightarrow> if truthy text then Some text else None) of
              Some weatherText \<Rightarrow>
                await (query (\<lambda>d. hasCredits d phoneNumber 1)) (\<lambda>enough.
                if \<not> enough then handleNoCredits env phoneNumber language
                else
                  await (deduct phoneNumber 1) (\<lambda>_.
                  await (attempt (\<lambda>d. logTransaction d phoneNumber usage (- 1)
                           (Some ''Weather query'') None)) (\<lambda>_.
                  await (attempt (\<lambda>d. updateSession d phoneNumber (Some messageBody)
                           weatherText (clock env))) (\<lambda>_.
                  sendSMS env phoneNumber (Plain weatherText) language))))
            | None \<Rightarrow>
                await (query (\<lambda>d. hasCredits d phoneNumber 1)) (\<lambda>enough.
                if \<not> enough then handleNoCredits env phoneNumber language
                else
                  await (query (\<lambda>d. getContext d phoneNumber (clock env))) (\<lambda>context.
                  await (query (\<lambda>d. getActiveCustomAgent d phoneNumber)) (\<lambda>customAgent.
                  await
                    (case customAgent of
                       Some agent \<Rightarrow>
                         call (generateResponseWithCustomPrompt env messageBody
                                 (ctx_messages context) (lastAiResponse context)
                                 (system_prompt agent) language)
                     | None \<Rightarrow>
                         await (query (\<lambda>d. getSelectedCategories d phoneNumber))
                           (\<lambda>userCategories.
                         call (generateResponse env messageBody (ctx_messages context)
                                 (lastAiResponse context) userCategories language)))
                    (\<lambda>aiResponse.
                  await (attempt (\<lambda>d. updateSession d phoneNumber (Some messageBody)
                           aiResponse (clock env))) (\<lambda>_.
                  await (deduct phoneNumber 1) (\<lambda>_.
                  await (attempt (\<lambda>d. logTransaction d phoneNumber usage (- 1)
                           (Some ''AI conversation'') None)) (\<lambda>_.
                  sendSMS env phoneNumber (Plain aiResponse) language))))))))))
       (\<lambda>error. sendSMS env phoneNumber (Plain generic_error_text) sv)"

text \<open>Collaborators and worlds on which the dispatch is run below.\<close>

definition example_services :: "string collaborators" where
  "example_services =
     \<lparr>handleWeatherQuery = (\<lambda>m. Inr None),
      generateResponse = (\<lambda>m ms r cs l. Inr ''an answer''),
      generateResponseWithCustomPrompt = (\<lambda>m ms r prompt l. Inr ''an answer''),
      expandResponse = (\<lambda>r m cs. Inr ''a longer answer''),
      analyzeImage = (\<lambda>url q cs l. Inr ''a description''),
      searchNearby = (\<lambda>c cat r. Inr ''Sjukhus''),
      formatSearchResult = (\<lambda>r l. r @ '' (within 10 km): 1. Karolinska''),
      getWeatherByCoordinates = (\<lambda>la lo l. Inr ''sunny''),
      formatNearestResponse = (\<lambda>c t l. ''nearest''),
      delivers = (\<lambda>to body. True),
      clock = 1000\<rparr>"

definition example_world :: world where
  "example_world = \<lparr>db = example_db, outbox = []\<rparr>"

definition broke_world :: world where
  "broke_world =
     \<lparr>db = example_db\<lparr>users := [''+46700000001'' \<mapsto> example_user\<lparr>credits_remaining := 0\<rparr>]\<rparr>,
      outbox = []\<rparr>"

definition gps_hospital_text :: string where
  "gps_hospital_text = ''59.3293 N, 18.0686 E hospital''"

definition hospital_reply :: sms_body where
  "hospital_reply = Plain ''Sjukhus (within 10 km): 1. Karolinska''"

section \<open>Properties of the credit ledger\<close>


lemma sint_int4: "int4 (sint (w :: 32 word))"
  using sint_lt [of w] sint_ge [of w] by (simp add: int4_def)

lemma sint_word_of_int4: "int4 i \<Longrightarrow> sint (word_of_int i :: 32 word) = i"
  by (simp add: int4_def int_word_sint)

lemma sint_minus_int4:
  assumes "int4 (sint (w :: 32 word) - n)"
  shows "sint (w - word_of_int n) = sint w - n"
proof -
  have "w - word_of_int n = word_of_int (sint w - n)" by simp
  then have "sint (w - word_of_int n) = sint (word_of_int (sint w - n) :: 32 word)"
    by (rule arg_cong)
  also have "\<dots> = sint w - n" using assms by (rule sint_word_of_int4)
  finally show ?thesis .
qed

lemma sint_minus_one_int4:
  "int4 (sint (w :: 32 word) - 1) \<Longrightarrow> sint (w - 1) = sint w - 1"
  using sint_minus_int4 [of w 1] by simp

lemma balance_int4: "balance d p = Some b \<Longrightarrow> int4 b"
  by (auto simp: balance_def sint_int4)







text \<open>
  C10. For an identity with no account, hasCredits is false for every required amount
  and deductCredits returns false and leaves the whole database as it was: no balance
  changes and no transaction is written.
\<close>

theorem unknown_identity_credit_ops:
  assumes "getUser d p = None"
  shows "hasCredits d p n = False \<and> deductCredits d p n = Inr (False, d)"
  using assms by (simp add: hasCredits_def deductCredits_def)

theorem unknown_identity_credit_ops_witness:
  "getUser example_db ''+46700000002'' = None
   \<and> hasCredits example_db ''+46700000002'' 1 = False
   \<and> deductCredits example_db ''+46700000002'' 1 = Inr (False, example_db)"
proof -
  have h: "getUser example_db ''+46700000002'' = None"
    by (simp add: getUser_def example_db_def)
  from unknown_identity_credit_ops [OF h, of 1] h show ?thesis by simp
qed

section \<open>Properties of the rate limiter\<close>

lemma limits_set_twice [simp]: "limits_set (limits_set r k e) k e' = limits_set r k e'"
  by (simp add: limits_set_def)

lemma limits_limits_set [simp]:
  "limits (limits_set r k e) k' = (if k' = k then Some e else limits r k')"
  by (simp add: limits_set_def)

lemma limits_set_same: "limits r k = Some e \<Longrightarrow> limits_set r k e = r"
  by (simp add: limits_set_def map_upd_triv)

lemma max_limits_set [simp]:
  "maxPerMinute (limits_set r k e) = maxPerMinute r"
  "maxPerHour (limits_set r k e) = maxPerHour r"
  "maxPerDay (limits_set r k e) = maxPerDay r"
  by (simp_all add: limits_set_def)

lemma getMaxLimit_limits_set [simp]: "getMaxLimit (limits_set r k e) w = getMaxLimit r w"
  by (cases w) (simp_all add: limits_set_def)

lemma isAllowed_fresh:
  assumes "limits r (limit_key p w) = None \<or> (\<exists>e. limits r (limit_key p w) = Some e \<and> resetAt e < t)"
  shows "isAllowed r p w t =
     (True, limits_set r (limit_key p w) \<lparr>count = 1, resetAt = t + getWindowDuration w\<rparr>)"
  using assms by (auto simp: isAllowed_def Let_def)

lemma isAllowed_live:
  assumes "limits r (limit_key p w) = Some e" and "t \<le> resetAt e"
  shows "isAllowed r p w t =
     (if count e \<ge> getMaxLimit r w then (False, r)
      else (True, limits_set r (limit_key p w) (e\<lparr>count := count e + 1\<rparr>)))"
  using assms by (simp add: isAllowed_def Let_def)

lemma calls_within:
  "limits r (limit_key p w) = Some e \<Longrightarrow> \<forall>t\<in>set ts. t \<le> resetAt e \<Longrightarrow>
   count e + int (length ts) \<le> getMaxLimit r w \<Longrightarrow>
   calls r p w ts = (replicate (length ts) True,
      limits_set r (limit_key p w) (e\<lparr>count := count e + int (length ts)\<rparr>))"
proof (induction ts arbitrary: r e)
  case Nil
  then show ?case by (simp add: limits_set_same)
next
  case (Cons t ts)
  let ?e = "e\<lparr>count := count e + 1\<rparr>"
  let ?r = "limits_set r (limit_key p w) ?e"
  from Cons.prems have step: "isAllowed r p w t = (True, ?r)"
    by (simp add: isAllowed_live)
  have rest: "calls ?r p w ts = (replicate (length ts) True,
      limits_set ?r (limit_key p w) (?e\<lparr>count := count ?e + int (length ts)\<rparr>))"
    using Cons.prems by (intro Cons.IH) simp_all
  show ?case by (simp add: step rest add.assoc)
qed

text \<open>
  C6, as the code has it, for a configured maximum of at least 1. A window period
  starts with a call that finds no entry, or one that has run out: that call is
  allowed whatever the maximum and sets the counter to 1. When, with the calls that
  follow within the period, \<open>max\<close> calls have been made (so \<open>max\<close> is at least 1),
  all of them were allowed; the next call within the period is refused and leaves the
  limiter as it was; and a call after the reset time is allowed again and starts a
  counter of 1.
\<close>

theorem rate_window_limit:
  assumes start: "limits r (limit_key p w) = None
             \<or> (\<exists>e. limits r (limit_key p w) = Some e \<and> resetAt e < t0)"
    and within: "\<forall>t\<in>set ts. t \<le> t0 + getWindowDuration w"
    and full: "int (Suc (length ts)) = getMaxLimit r w"
    and run: "calls r p w (t0 # ts) = (oks, r')"
  shows "oks = replicate (Suc (length ts)) True
       \<and> (\<forall>t. t \<le> t0 + getWindowDuration w \<longrightarrow> isAllowed r' p w t = (False, r'))
       \<and> (\<forall>t. t0 + getWindowDuration w < t \<longrightarrow>
            isAllowed r' p w t = (True, limits_set r' (limit_key p w)
               \<lparr>count = 1, resetAt = t + getWindowDuration w\<rparr>))"
proof -
  let ?k = "limit_key p w"
  let ?e = "\<lparr>count = 1, resetAt = t0 + getWindowDuration w\<rparr>"
  let ?r1 = "limits_set r ?k ?e"
  let ?e' = "?e\<lparr>count := count ?e + int (length ts)\<rparr>"
  let ?r2 = "limits_set ?r1 ?k ?e'"
  have first: "isAllowed r p w t0 = (True, ?r1)"
    using start by (rule isAllowed_fresh)
  have rest: "calls ?r1 p w ts = (replicate (length ts) True, ?r2)"
    using within full by (intro calls_within) simp_all
  from first rest run have oks: "oks = replicate (Suc (length ts)) True" and r': "r' = ?r2"
    by simp_all
  have entry: "limits r' ?k = Some ?e'" by (simp add: r')
  have cnt: "count ?e' = getMaxLimit r' w" using full by (simp add: r')
  have denied: "isAllowed r' p w t = (False, r')" if "t \<le> t0 + getWindowDuration w" for t
    using that cnt by (simp add: isAllowed_live [OF entry])
  have again: "isAllowed r' p w t = (True, limits_set r' ?k
               \<lparr>count = 1, resetAt = t + getWindowDuration w\<rparr>)"
    if "t0 + getWindowDuration w < t" for t
    using that entry by (intro isAllowed_fresh) simp
  from oks denied again show ?thesis by blast
qed

theorem rate_window_limit_witness:
  "calls limiter2 ''+46700000001'' minute [1000, 2000]
     = ([True, True], limits_set limiter2 ''+46700000001:minute'' \<lparr>count = 2, resetAt = 61000\<rparr>)
   \<and> fst (isAllowed (snd (calls limiter2 ''+46700000001'' minute [1000, 2000])) ''+46700000001'' minute 3000) = False
   \<and> fst (isAllowed (snd (calls limiter2 ''+46700000001'' minute [1000, 2000])) ''+46700000001'' minute 61001) = True"
proof -
  have run: "calls limiter2 ''+46700000001'' minute [1000, 2000]
     = ([True, True], limits_set limiter2 ''+46700000001:minute'' \<lparr>count = 2, resetAt = 61000\<rparr>)"
    by (simp add: limiter2_def RateLimiter_new_def isAllowed_def limit_key_def Let_def)
  have start: "limits limiter2 (limit_key ''+46700000001'' minute) = None
      \<or> (\<exists>e. limits limiter2 (limit_key ''+46700000001'' minute) = Some e \<and> resetAt e < 1000)"
    by (simp add: limiter2_def RateLimiter_new_def)
  have within: "\<forall>t\<in>set [2000::int]. t \<le> 1000 + getWindowDuration minute" by simp
  have full: "int (Suc (length [2000::int])) = getMaxLimit limiter2 minute"
    by (simp add: limiter2_def RateLimiter_new_def)
  from rate_window_limit [OF start within full run] run
  show ?thesis by simp
qed

text \<open>
  C6 as the specification states it fails for a maximum of 0: the first call of a
  window, which would be call \<open>max + 1\<close>, is allowed, and only the second is refused.
\<close>

theorem rate_window_zero_max_counterexample:
  "getMaxLimit limiter0 minute = 0
   \<and> fst (isAllowed limiter0 ''+46700000001'' minute 1000) = True
   \<and> fst (calls limiter0 ''+46700000001'' minute [1000, 2000]) = [True, False]"
  by (simp add: limiter0_def RateLimiter_new_def isAllowed_def limit_key_def Let_def)

lemma rev_limit_reason:
  "rev (limit_reason r w) ! 1 = (case w of minute \<Rightarrow> CHR ''t'' | hour \<Rightarrow> CHR ''e'' | day \<Rightarrow> CHR ''g'')"
  by (cases w) (simp_all add: limit_reason_def)

lemma limit_reason_inj: "limit_reason r w = limit_reason r w' \<Longrightarrow> w = w'"
  using rev_limit_reason [of r w] rev_limit_reason [of r w']
  by (cases w; cases w') simp_all

lemma limit_key_window: "limit_key p v = limit_key p w \<longleftrightarrow> v = w"
  by (cases v; cases w) (simp_all add: limit_key_def)

lemma getWindowDuration_pos: "0 < getWindowDuration w"
  by (cases w) simp_all

lemma isAllowed_refused: "isAllowed r p w t = (False, r1) \<Longrightarrow> r1 = r"
  by (auto simp: isAllowed_def Let_def split: option.splits if_splits)

lemma isAllowed_granted:
  assumes "isAllowed r p w t = (True, r1)"
  shows "getCount r1 p w t = getCount r p w t + 1"
    and "v \<noteq> w \<Longrightarrow> limits r1 (limit_key p v) = limits r (limit_key p v)"
  using assms getWindowDuration_pos [of w]
  by (auto simp: isAllowed_def Let_def getCount_def limit_key_window
           split: option.splits if_splits)

lemma getCount_same_entry:
  "limits r1 (limit_key p w) = limits r (limit_key p w) \<Longrightarrow> getCount r1 p w t = getCount r p w t"
  by (simp add: getCount_def)

text \<open>
  C9. When \<open>checkLimits\<close> refuses, it names a window \<open>w\<close>; the count in use of every
  window consulted before \<open>w\<close> is one more than before the call, and the entries of
  \<open>w\<close> and of the windows after it are what they were. So a message refused at the
  hour window has still used one count of the sender's minute window.
\<close>

theorem checkLimits_denied_counts:
  assumes run: "checkLimits r p now = (res, r')" and denied: "\<not> allowed res"
  shows "\<exists>w. reason res = Some (limit_reason r w)
     \<and> (\<forall>v. checked_before v w \<longrightarrow> getCount r' p v (now v) = getCount r p v (now v) + 1)
     \<and> (\<forall>v. \<not> checked_before v w \<longrightarrow> limits r' (limit_key p v) = limits r (limit_key p v))"
proof -
  obtain a1 r1 where m: "isAllowed r p minute (now minute) = (a1, r1)" by force
  obtain a2 r2 where h: "isAllowed r1 p hour (now hour) = (a2, r2)" by force
  obtain a3 r3 where d: "isAllowed r2 p day (now day) = (a3, r3)" by force
  show ?thesis
  proof (cases a1)
    case False
    with m run have "res = \<lparr>allowed = False, reason = Some (limit_reason r minute)\<rparr>" "r' = r"
      using isAllowed_refused [of r p minute "now minute" r1]
      by (simp_all add: checkLimits_def)
    then have "reason res = Some (limit_reason r minute)
       \<and> (\<forall>v. checked_before v minute \<longrightarrow> getCount r' p v (now v) = getCount r p v (now v) + 1)
       \<and> (\<forall>v. \<not> checked_before v minute \<longrightarrow> limits r' (limit_key p v) = limits r (limit_key p v))"
      by simp
    then show ?thesis ..
  next
    case a1: True
    from m a1 have m': "isAllowed r p minute (now minute) = (True, r1)" by simp
    note g1 = isAllowed_granted [OF m']
    show ?thesis
    proof (cases a2)
      case False
      with m h a1 run have res: "res = \<lparr>allowed = False, reason = Some (limit_reason r hour)\<rparr>"
        and r': "r' = r1"
        using isAllowed_refused [of r1 p hour "now hour" r2]
        by (simp_all add: checkLimits_def)
      have "getCount r' p v (now v) = getCount r p v (now v) + 1" if "checked_before v hour" for v
        using that g1(1) r' by (cases v) simp_all
      moreover have "limits r' (limit_key p v) = limits r (limit_key p v)"
        if "\<not> checked_before v hour" for v
        using that g1(2) [of v] r' by (cases v) simp_all
      ultimately have "reason res = Some (limit_reason r hour)
       \<and> (\<forall>v. checked_before v hour \<longrightarrow> getCount r' p v (now v) = getCount r p v (now v) + 1)
       \<and> (\<forall>v. \<not> checked_before v hour \<longrightarrow> limits r' (limit_key p v) = limits r (limit_key p v))"
        using res by simp
      then show ?thesis ..
    next
      case a2: True
      from h a2 have h': "isAllowed r1 p hour (now hour) = (True, r2)" by simp
      note g2 = isAllowed_granted [OF h']
      have a3: "\<not> a3" using m h d a1 a2 run denied
        by (cases a3) (auto simp: checkLimits_def)
      with m h d a1 a2 run have res: "res = \<lparr>allowed = False, reason = Some (limit_reason r day)\<rparr>"
        and r': "r' = r2"
        using isAllowed_refused [of r2 p day "now day" r3]
        by (simp_all add: checkLimits_def)
      have min2: "getCount r2 p minute (now minute) = getCount r1 p minute (now minute)"
        using g2(2) [of minute] by (intro getCount_same_entry) simp
      have hour1: "getCount r1 p hour (now hour) = getCount r p hour (now hour)"
        using g1(2) [of hour] by (intro getCount_same_entry) simp
      have "getCount r' p v (now v) = getCount r p v (now v) + 1" if "checked_before v day" for v
        using that g1(1) g2(1) min2 hour1 r' by (cases v) simp_all
      moreover have "limits r' (limit_key p v) = limits r (limit_key p v)"
        if "\<not> checked_before v day" for v
        using that g1(2) [of day] g2(2) [of day] r' by (cases v) simp_all
      ultimately have "reason res = Some (limit_reason r day)
       \<and> (\<forall>v. checked_before v day \<longrightarrow> getCount r' p v (now v) = getCount r p v (now v) + 1)
       \<and> (\<forall>v. \<not> checked_before v day \<longrightarrow> limits r' (limit_key p v) = limits r (limit_key p v))"
        using res by simp
      then show ?thesis ..
    qed
  qed
qed

theorem checkLimits_denied_counts_witness:
  "\<not> allowed (fst (checkLimits limiter_hour_full ''+46700000001'' (\<lambda>_. 2000)))
   \<and> reason (fst (checkLimits limiter_hour_full ''+46700000001'' (\<lambda>_. 2000)))
       = Some (limit_reason limiter_hour_full hour)
   \<and> getCount limiter_hour_full ''+46700000001'' minute 2000 = 1
   \<and> getCount (snd (checkLimits limiter_hour_full ''+46700000001'' (\<lambda>_. 2000)))
         ''+46700000001'' minute 2000 = 2"
proof -
  let ?p = "''+46700000001''"
  let ?r' = "limits_set limiter_hour_full ''+46700000001:minute'' \<lparr>count = 2, resetAt = 61000\<rparr>"
  let ?res = "\<lparr>allowed = False, reason = Some (limit_reason limiter_hour_full hour)\<rparr>"
  have run: "checkLimits limiter_hour_full ?p (\<lambda>_. 2000) = (?res, ?r')"
    by (simp add: checkLimits_def isAllowed_def limit_key_def Let_def limiter_hour_full_def
        limits_set_def)
  have den: "\<not> allowed ?res" by simp
  from checkLimits_denied_counts [OF run den] obtain w
    where w: "limit_reason limiter_hour_full hour = limit_reason limiter_hour_full w"
      and inc: "\<forall>v. checked_before v w \<longrightarrow>
         getCount ?r' ?p v 2000 = getCount limiter_hour_full ?p v 2000 + 1"
    by auto
  from limit_reason_inj [OF w] have "w = hour" by simp
  with inc have "getCount ?r' ?p minute 2000 = getCount limiter_hour_full ?p minute 2000 + 1"
    by simp
  moreover have "getCount limiter_hour_full ?p minute 2000 = 1"
    by (simp add: getCount_def limit_key_def limiter_hour_full_def)
  ultimately show ?thesis using run by simp
qed

section \<open>Properties of the session store\<close>

lemma isSessionExpired_iff: "isSessionExpired s now \<longleftrightarrow> now - updated_at s > 30 * 60 * 1000"
proof -
  have "(of_int (now - updated_at s) :: rat) / (1000 * 60) > 30
        \<longleftrightarrow> (of_int (now - updated_at s) :: rat) > of_int (30 * 60 * 1000)"
    by (simp add: pos_less_divide_eq)
  also have "\<dots> \<longleftrightarrow> now - updated_at s > 30 * 60 * 1000"
    by (simp only: of_int_less_iff)
  finally show ?thesis
    by (simp add: isSessionExpired_def SESSION_TIMEOUT_MINUTES_def Let_def)
qed

lemma most_recent_None: "most_recent xs = None \<longleftrightarrow> xs = []"
  by (induction xs) (auto split: option.splits)

lemma most_recent_mem: "most_recent xs = Some y \<Longrightarrow> y \<in> set xs"
  by (induction xs arbitrary: y) (auto split: option.splits if_splits)

lemma most_recent_greatest:
  "most_recent xs = Some y \<Longrightarrow> r \<in> set xs \<Longrightarrow> updated_at r \<le> updated_at y"
proof (induction xs arbitrary: y)
  case Nil
  then show ?case by simp
next
  case (Cons x xs)
  show ?case
  proof (cases "most_recent xs")
    case None
    with Cons.prems show ?thesis by (simp add: most_recent_None)
  next
    case (Some z)
    with Cons.prems Cons.IH [OF Some] show ?thesis
      by (fastforce split: if_splits)
  qed
qed

lemma most_recent_unique:
  "s \<in> set xs \<Longrightarrow> \<forall>r\<in>set xs. r \<noteq> s \<longrightarrow> updated_at r < updated_at s \<Longrightarrow>
   most_recent xs = Some s"
proof -
  assume mem: "s \<in> set xs" and top: "\<forall>r\<in>set xs. r \<noteq> s \<longrightarrow> updated_at r < updated_at s"
  from mem obtain y where y: "most_recent xs = Some y"
    by (cases "most_recent xs") (auto simp: most_recent_None)
  have "y = s"
  proof (rule ccontr)
    assume "y \<noteq> s"
    with top most_recent_mem [OF y] have "updated_at y < updated_at s" by blast
    moreover from most_recent_greatest [OF y mem] have "updated_at s \<le> updated_at y" .
    ultimately show False by simp
  qed
  with y show ?thesis by simp
qed

lemma current_latest: "current d p s \<Longrightarrow> latest_row d p = Some s"
  unfolding latest_row_def current_def
  by (intro most_recent_unique) auto

lemma appended_Cons: "appended ((m, a, t) # cs) = given m @ appended cs"
  by (cases m) simp_all

lemma slice_last_short: "length xs \<le> n \<Longrightarrow> slice_last n xs = xs"
  by (simp add: slice_last_def)

lemma length_slice_last: "length (slice_last n xs) = min (length xs) n"
  by (simp add: slice_last_def)

lemma slice_last_append: "slice_last n (slice_last n xs @ ys) = slice_last n (xs @ ys)"
  by (cases "n \<le> length xs") (simp_all add: slice_last_def add.commute)

lemma updateSession_live:
  assumes "getSession d p u = Some s" and "length (messages s) \<le> MAX_MESSAGES"
  shows "updateSession d p m a u =
     Inr (d\<lparr>sessions := map (\<lambda>r. if session_id r = session_id s
                                 then r\<lparr>messages := window_after (messages s) m,
                                        last_ai_response := Some a, updated_at := u\<rparr>
                                 else r) (sessions d)\<rparr>)"
proof -
  have "(case m of None \<Rightarrow> messages s
         | Some x \<Rightarrow> if truthy x then
              (let pushed = messages s @ [x]
               in if length pushed > MAX_MESSAGES then slice_last MAX_MESSAGES pushed else pushed)
            else messages s) = window_after (messages s) m"
    using assms(2)
    by (cases m) (auto simp: window_after_def Let_def slice_last_short)
  with assms(1) show ?thesis by (simp add: updateSession_def Let_def)
qed

lemma getSession_current:
  assumes "current d p s" and "u - updated_at s \<le> 30 * 60 * 1000"
  shows "getSession d p u = Some s"
  using assms by (simp add: getSession_def current_latest isSessionExpired_iff)

lemma update_step:
  fixes m :: "string option" and a :: string
  assumes cur: "current d p s" and near: "u - updated_at s \<le> 30 * 60 * 1000"
    and later: "updated_at s \<le> u" and cap: "length (messages s) \<le> MAX_MESSAGES"
  defines "s' \<equiv> s\<lparr>messages := window_after (messages s) m,
                    last_ai_response := Some a, updated_at := u\<rparr>"
  shows "\<exists>d'. updateSession d p m a u = Inr d' \<and> current d' p s'
           \<and> users d' = users d \<and> next_session_id d' = next_session_id d
           \<and> (fresh_ids d \<longrightarrow> fresh_ids d') \<and> (capped d \<longrightarrow> capped d')"
proof -
  let ?g = "\<lambda>r. if session_id r = session_id s
                 then r\<lparr>messages := window_after (messages s) m,
                        last_ai_response := Some a, updated_at := u\<rparr>
                 else r"
  let ?d' = "d\<lparr>sessions := map ?g (sessions d)\<rparr>"
  have run: "updateSession d p m a u = Inr ?d'"
    using getSession_current [OF cur near] cap by (rule updateSession_live)
  have gs: "?g s = s'" by (simp add: s'_def)
  have other: "?g r = r" if "r \<in> set (sessions d)" "r \<noteq> s" for r
    using that cur by (auto simp: current_def)
  have mem: "s' \<in> set (sessions ?d')"
    using cur gs by (force simp: current_def)
  have cur': "current ?d' p s'"
    unfolding current_def
  proof (intro conjI ballI impI)
    show "s' \<in> set (sessions ?d')" by (rule mem)
    show "phone_number s' = p" using cur by (simp add: s'_def current_def)
  next
    fix r' assume r': "r' \<in> set (sessions ?d')" and ne: "r' \<noteq> s'"
    then obtain r where r: "r \<in> set (sessions d)" and eq: "r' = ?g r" by auto
    have "r \<noteq> s" using ne eq gs by auto
    with other [OF r] eq have same: "r' = r" by simp
    from cur r \<open>r \<noteq> s\<close> have id: "session_id r \<noteq> session_id s"
      and old: "phone_number r = p \<longrightarrow> updated_at r < updated_at s"
      by (auto simp: current_def)
    show "session_id r' \<noteq> session_id s'" using id same by (simp add: s'_def)
    show "updated_at r' < updated_at s'" if "phone_number r' = p"
      using that old same later by (simp add: s'_def)
  qed
  have fresh: "fresh_ids d \<longrightarrow> fresh_ids ?d'"
    by (auto simp: fresh_ids_def)
  have capd: "capped d \<longrightarrow> capped ?d'"
    by (auto simp: capped_def window_after_def length_slice_last)
  from run cur' fresh capd show ?thesis by simp
qed

lemma dormant_getSession: "dormant d p u \<Longrightarrow> getSession d p u = None"
proof (cases "latest_row d p")
  case None
  then show ?thesis by (simp add: getSession_def)
next
  case (Some y)
  assume dorm: "dormant d p u"
  from Some have "y \<in> set (filter (\<lambda>s. phone_number s = p) (sessions d))"
    unfolding latest_row_def by (rule most_recent_mem)
  with dorm have "u - updated_at y > 30 * 60 * 1000" by (simp add: dormant_def)
  with Some show ?thesis by (simp add: getSession_def isSessionExpired_iff)
qed

lemma getSession_None_dormant:
  assumes "getSession d p u = None"
  shows "dormant d p u"
proof (cases "latest_row d p")
  case None
  then have "filter (\<lambda>s. phone_number s = p) (sessions d) = []"
    by (simp add: latest_row_def most_recent_None)
  then show ?thesis by (auto simp: dormant_def filter_empty_conv)
next
  case (Some y)
  with assms have old: "u - updated_at y > 30 * 60 * 1000"
    by (simp add: getSession_def isSessionExpired_iff split: if_splits)
  have "updated_at r \<le> updated_at y" if "r \<in> set (sessions d)" "phone_number r = p" for r
    using that Some most_recent_greatest [of "filter (\<lambda>s. phone_number s = p) (sessions d)" y r]
    by (simp add: latest_row_def)
  with old show ?thesis by (fastforce simp: dormant_def)
qed

lemma dormant_later: "dormant d p t \<Longrightarrow> t \<le> u \<Longrightarrow> dormant d p u"
  by (fastforce simp: dormant_def)

lemma create_step:
  assumes dorm: "dormant d p u" and user: "users d p \<noteq> None"
    and fresh: "fresh_ids d" and m: "truthy m"
  shows "\<exists>d' s. updateSession d p (Some m) a u = Inr d' \<and> current d' p s
           \<and> messages s = [m] \<and> updated_at s = u
           \<and> users d' = users d \<and> fresh_ids d' \<and> (capped d \<longrightarrow> capped d')"
proof -
  let ?row = "\<lparr>session_id = next_session_id d, phone_number = p, messages = [m],
                last_ai_response = None, last_location = None, updated_at = u\<rparr>"
  let ?d' = "d\<lparr>sessions := sessions d @ [?row], next_session_id := Suc (next_session_id d)\<rparr>"
  have run: "updateSession d p (Some m) a u = Inr ?d'"
    using dormant_getSession [OF dorm] user m
    by (simp add: updateSession_def createSession_def Let_def)
  have cur: "current ?d' p ?row"
    using fresh dorm by (fastforce simp: current_def fresh_ids_def dormant_def)
  have fresh': "fresh_ids ?d'"
    using fresh by (fastforce simp: fresh_ids_def)
  have cap: "capped d \<longrightarrow> capped ?d'"
    by (auto simp: capped_def MAX_MESSAGES_def)
  from run cur fresh' cap show ?thesis by force
qed

lemma run_current:
  "current d p s \<Longrightarrow> capped d \<Longrightarrow> paced (updated_at s) (map call_time cs) \<Longrightarrow>
   \<exists>d' s'. updates d p cs = Inr d' \<and> current d' p s' \<and> capped d'
       \<and> messages s' = slice_last MAX_MESSAGES (messages s @ appended cs)
       \<and> updated_at s' = last (updated_at s # map call_time cs)"
proof (induction cs arbitrary: d s)
  case Nil
  then have "length (messages s) \<le> MAX_MESSAGES" by (simp add: capped_def current_def)
  with Nil show ?case by (auto simp: slice_last_short)
next
  case (Cons c cs)
  obtain m a u where c: "c = (m, a, u)" by (cases c)
  from Cons.prems c have near: "u - updated_at s \<le> 30 * 60 * 1000"
    and later: "updated_at s \<le> u" and rest: "paced u (map call_time cs)"
    by simp_all
  from Cons.prems have len: "length (messages s) \<le> MAX_MESSAGES"
    by (simp add: capped_def current_def)
  let ?s1 = "s\<lparr>messages := window_after (messages s) m,
               last_ai_response := Some a, updated_at := u\<rparr>"
  from update_step [OF Cons.prems(1) near later len, of m a] Cons.prems(2)
  obtain d1 where step: "updateSession d p m a u = Inr d1" and cur1: "current d1 p ?s1"
    and cap1: "capped d1"
    by auto
  from rest have rest': "paced (updated_at ?s1) (map call_time cs)" by simp
  from Cons.IH [OF cur1 cap1 rest'] obtain d' s'
    where run: "updates d1 p cs = Inr d'" and cur': "current d' p s'" and cap': "capped d'"
      and msgs: "messages s' = slice_last MAX_MESSAGES (messages ?s1 @ appended cs)"
      and upd: "updated_at s' = last (updated_at ?s1 # map call_time cs)"
    by blast
  have "messages s' = slice_last MAX_MESSAGES (messages s @ appended (c # cs))"
    using msgs by (simp add: c appended_Cons window_after_def slice_last_append)
  moreover have "updated_at s' = last (updated_at s # map call_time (c # cs))"
    using upd by (simp add: c)
  moreover have "updates d p (c # cs) = Inr d'"
    using step run by (simp add: c)
  ultimately show ?case using cur' cap' by blast
qed

lemma run_dormant:
  "dormant d p t0 \<Longrightarrow> users d p \<noteq> None \<Longrightarrow> fresh_ids d \<Longrightarrow> capped d \<Longrightarrow>
   paced t0 (map call_time cs) \<Longrightarrow>
   \<exists>d'. updates d p cs = Inr d' \<and> capped d'
       \<and> ctx_messages (getContext d' p (last (t0 # map call_time cs)))
           = slice_last MAX_MESSAGES (appended cs)"
proof (induction cs arbitrary: t0)
  case Nil
  then show ?case
    by (simp add: getContext_def dormant_getSession slice_last_def)
next
  case (Cons c cs)
  obtain m a u where c: "c = (m, a, u)" by (cases c)
  from Cons.prems c have later: "t0 \<le> u" and rest: "paced u (map call_time cs)"
    by simp_all
  have dorm: "dormant d p u" using Cons.prems(1) later by (rule dormant_later)
  show ?case
  proof (cases "given m = []")
    case True
    then have idle: "updateSession d p m a u = Inr d"
      using dormant_getSession [OF dorm]
      by (cases m) (auto simp: updateSession_def split: if_splits)
    from Cons.IH [OF dorm Cons.prems(2,3,4) rest] obtain d'
      where "updates d p cs = Inr d'" "capped d'"
        "ctx_messages (getContext d' p (last (u # map call_time cs)))
           = slice_last MAX_MESSAGES (appended cs)"
      by blast
    with idle True show ?thesis by (simp add: c appended_Cons)
  next
    case False
    then obtain x where m: "m = Some x" and x: "truthy x"
      by (cases m) (auto split: if_splits)
    from create_step [OF dorm Cons.prems(2,3) x, of a] Cons.prems(4)
    obtain d1 s where step: "updateSession d p (Some x) a u = Inr d1"
      and cur: "current d1 p s" and ms: "messages s = [x]" and up: "updated_at s = u"
      and cap1: "capped d1"
      by auto
    from rest up have rest': "paced (updated_at s) (map call_time cs)" by simp
    from run_current [OF cur cap1 rest'] obtain d' s'
      where run: "updates d1 p cs = Inr d'" and cur': "current d' p s'" and cap': "capped d'"
        and msgs: "messages s' = slice_last MAX_MESSAGES (messages s @ appended cs)"
        and upd: "updated_at s' = last (updated_at s # map call_time cs)"
      by blast
    have "getSession d' p (last (t0 # map call_time (c # cs))) = Some s'"
      using cur' upd up by (intro getSession_current) (simp_all add: c)
    then have "ctx_messages (getContext d' p (last (t0 # map call_time (c # cs))))
        = slice_last MAX_MESSAGES (appended (c # cs))"
      using msgs ms x by (simp add: getContext_def c m)
    moreover have "updates d p (c # cs) = Inr d'" using step run by (simp add: c m)
    ultimately show ?thesis using cap' by blast
  qed
qed

text \<open>
  C5. Take a database whose id sequence is ahead of the stored ids and whose stored
  message windows hold at most 3 messages, and an identity with an account and no
  session in force. A conversation of \<open>updateSession\<close> calls, each within the
  timeout of the one before, succeeds; no stored message window is then longer than
  3, and the context read at the last call holds exactly the last \<open>min N 3\<close> of the
  \<open>N\<close> appended messages, in arrival order.
\<close>

theorem session_window:
  assumes account: "getUser d p \<noteq> None"
    and ids: "\<forall>r\<in>set (sessions d). session_id r < next_session_id d"
    and cap: "\<forall>r\<in>set (sessions d). length (messages r) \<le> 3"
    and none: "getSession d p t0 = None"
    and pace: "paced t0 (map call_time cs)"
  shows "\<exists>d'. updates d p cs = Inr d'
      \<and> (\<forall>r\<in>set (sessions d'). length (messages r) \<le> 3)
      \<and> ctx_messages (getContext d' p (last (t0 # map call_time cs)))
          = drop (length (appended cs) - min (length (appended cs)) 3) (appended cs)"
proof -
  have "dormant d p t0" using none by (rule getSession_None_dormant)
  moreover have "users d p \<noteq> None" using account by (simp add: getUser_def)
  moreover have "fresh_ids d" using ids by (simp add: fresh_ids_def)
  moreover have "capped d" using cap by (simp add: capped_def MAX_MESSAGES_def)
  ultimately obtain d' where "updates d p cs = Inr d'" "capped d'"
    "ctx_messages (getContext d' p (last (t0 # map call_time cs)))
           = slice_last MAX_MESSAGES (appended cs)"
    using run_dormant [OF _ _ _ _ pace] by blast
  moreover have "slice_last MAX_MESSAGES (appended cs)
      = drop (length (appended cs) - min (length (appended cs)) 3) (appended cs)"
    by (simp add: slice_last_def MAX_MESSAGES_def min_def)
  ultimately show ?thesis by (auto simp: capped_def MAX_MESSAGES_def)
qed

theorem session_window_witness:
  "getUser example_db ''+46700000001'' \<noteq> None
   \<and> getSession example_db ''+46700000001'' 1000 = None
   \<and> paced 1000 (map call_time talk4)
   \<and> (\<exists>d'. updates example_db ''+46700000001'' talk4 = Inr d'
         \<and> ctx_messages (getContext d' ''+46700000001'' 4000) = [''two'', ''three'', ''four''])"
proof -
  have account: "getUser example_db ''+46700000001'' \<noteq> None"
    by (simp add: getUser_def example_db_def)
  have ids: "\<forall>r\<in>set (sessions example_db). session_id r < next_session_id example_db"
    by (simp add: example_db_def)
  have cap: "\<forall>r\<in>set (sessions example_db). length (messages r) \<le> 3"
    by (simp add: example_db_def)
  have none: "getSession example_db ''+46700000001'' 1000 = None"
    by (simp add: getSession_def latest_row_def example_db_def)
  have pace: "paced 1000 (map call_time talk4)"
    by (simp add: talk4_def)
  have app: "appended talk4 = [''one'', ''two'', ''three'', ''four'']"
    by (simp add: talk4_def truthy_def)
  have fin: "last (1000 # map call_time talk4) = 4000"
    by (simp add: talk4_def)
  from session_window [OF account ids cap none pace] obtain d'
    where "updates example_db ''+46700000001'' talk4 = Inr d'"
      and "ctx_messages (getContext d' ''+46700000001'' (last (1000 # map call_time talk4)))
          = drop (length (appended talk4) - min (length (appended talk4)) 3) (appended talk4)"
    by blast
  then have "\<exists>d'. updates example_db ''+46700000001'' talk4 = Inr d'
         \<and> ctx_messages (getContext d' ''+46700000001'' 4000) = [''two'', ''three'', ''four'']"
    unfolding fin app by simp
  with account none pace show ?thesis by blast
qed

section \<open>Properties of the location fix\<close>

lemma most_recent_map:
  assumes "\<And>x. updated_at (f x) = updated_at x"
  shows "most_recent (map f xs) = map_option f (most_recent xs)"
  by (induction xs) (auto simp: assms split: option.splits)

lemma latest_row_saveLocation:
  "latest_row (saveLocation d p la lo now) p
     = map_option (\<lambda>s. s\<lparr>last_location := Some \<lparr>lat = la, lon = lo, timestamp = now\<rparr>\<rparr>)
         (latest_row d p)"
proof -
  let ?g = "\<lambda>s. s\<lparr>last_location := Some \<lparr>lat = la, lon = lo, timestamp = now\<rparr>\<rparr>"
  let ?f = "\<lambda>s. if phone_number s = p then ?g s else s"
  have "filter (\<lambda>s. phone_number s = p) (map ?f (sessions d))
        = map ?g (filter (\<lambda>s. phone_number s = p) (sessions d))"
    by (induction "sessions d" arbitrary: d) (auto simp: filter_map comp_def)
  then show ?thesis
    by (simp add: latest_row_def saveLocation_def Let_def most_recent_map)
qed

lemma day_not_over:
  "(of_int (t' - t) :: rat) / (1000 * 60 * 60) > 24 \<longleftrightarrow> t' - t > 24 * 60 * 60 * 1000"
proof -
  have "(of_int (t' - t) :: rat) / (1000 * 60 * 60) > 24
        \<longleftrightarrow> (of_int (t' - t) :: rat) > of_int (24 * 60 * 60 * 1000)"
    by (simp add: pos_less_divide_eq)
  also have "\<dots> \<longleftrightarrow> t' - t > 24 * 60 * 60 * 1000"
    by (simp only: of_int_less_iff)
  finally show ?thesis .
qed

lemma saveLocation_then_read:
  assumes "latest_row d p \<noteq> None" and "now' - now \<le> 24 * 60 * 60 * 1000"
  shows "getLastLocation (saveLocation d p la lo now) p now' = Some (la, lo)"
  using assms
  by (auto simp: getLastLocation_def latest_row_saveLocation Let_def day_not_over
      simp del: of_int_diff)

lemma saveLocation_no_row:
  assumes "latest_row d p = None"
  shows "getLastLocation (saveLocation d p la lo now) p now' = None"
  using assms by (simp add: getLastLocation_def latest_row_saveLocation)

text \<open>
  C3. \<open>saveLocation\<close> is an UPDATE of the identity's session rows. For an identity
  with an account and no session row, it changes nothing and the fix just saved cannot
  be read back. (With a row, timed out or not, \<open>saveLocation_then_read\<close> above gives
  the fix back for the next 24 hours.)
\<close>

theorem saveLocation_lost_without_session:
  "getUser example_db ''+46700000001'' \<noteq> None
   \<and> latest_row example_db ''+46700000001'' = None
   \<and> saveLocation example_db ''+46700000001'' 59.3293 18.0686 1000 = example_db
   \<and> getLastLocation (saveLocation example_db ''+46700000001'' 59.3293 18.0686 1000)
        ''+46700000001'' 1000 = None"
  by (simp add: getLastLocation_def latest_row_def saveLocation_def example_db_def getUser_def)

section \<open>Properties of the classifier and of GPS parsing\<close>

lemmas char_eval = code_def is_digit_def is_space_def any_char_def one_of_def one_of_i_def
  canonicalize_def lower_char_def char_of_eq_iff

lemmas rx_eval = rx_match_def seqs_def alts_def chr_def chr_i_def lit_i_def number_rx_def
  google_q_rx_def google_at_rx_def apple_rx_def simple_rx_def degrees_rx_def latlon_rx_def
  coordPatterns_def

lemmas gps_eval = parseLocation_def located_def match_numbers_def parseFloat_def decimal_def
  isValidCoordinate_def trim_def Let_def

text \<open>
  C7. The texts \<open>59,3293, 18,0686\<close> (decimal commas) and \<open>59.3293,18.0686\<close> parse
  to the same coordinates, latitude 59.3293 and longitude 18.0686, and \<open>91,200\<close>
  parses to nothing: the simple pattern reads it as latitude 91 and longitude 200,
  which the range check refuses, and no other pattern matches it.
\<close>

theorem parseLocation_examples:
  "map_option coordinates (parseLocation ''59,3293, 18,0686'')
     = Some \<lparr>c_lat = 59.3293, c_lon = 18.0686\<rparr>
   \<and> map_option coordinates (parseLocation ''59.3293,18.0686'')
     = Some \<lparr>c_lat = 59.3293, c_lon = 18.0686\<rparr>
   \<and> parseLocation ''91,200'' = None"
  by (simp add: gps_eval rx_eval char_eval)

lemmas text_eval = toLowerCase_def trim_def is_space_def code_def lower_char_def char_of_eq_iff

text \<open>
  C8, as the code has it. After trimming and lower-casing, the classifier accepts
  exactly six texts: each of the four phrases bare, and with a question mark only
  \<open>where am i?\<close> and the Swedish "var [a-diaeresis]r jag?".
\<close>

theorem isLocationQueryCommand_exact:
  "isLocationQueryCommand message \<longleftrightarrow>
     toLowerCase (trim message) \<in>
       {''where am i'', ''where am i?'',
        ''var '' @ [CHR 0xE4] @ ''r jag'', ''var '' @ [CHR 0xE4] @ ''r jag?'',
        ''my location'', ''min position''}"
  by (auto simp: isLocationQueryCommand_def Let_def)

lemma isLocationQueryCommand_examples:
  "isLocationQueryCommand ''  Where Am I?  ''"
  "isLocationQueryCommand (''VAR '' @ [CHR 0xC4] @ ''R JAG'')"
  "isLocationQueryCommand ''My Location''"
  "isLocationQueryCommand ''min position ''"
  by (simp_all add: isLocationQueryCommand_def text_eval)

text \<open>
  C8 as the specification states it fails: \<open>my location?\<close> and \<open>min position?\<close>
  are not recognized.
\<close>

theorem isLocationQueryCommand_question_mark_counterexample:
  "\<not> isLocationQueryCommand ''my location?'' \<and> \<not> isLocationQueryCommand ''min position?''"
  by (simp add: isLocationQueryCommand_def text_eval)

section \<open>Properties of the dispatch\<close>

lemmas action_eval = ret_def await_def try_catch_def call_def query_def exec_def attempt_def
  deduct_def sendSMS_def

lemmas command_eval = isStopCommand_def isHelpCommand_def isMoreCommand_def
  isLocationQueryCommand_def truthy_def

lemma parseLocation_MORE: "parseLocation ''MORE'' = None"
  by (simp add: gps_eval rx_eval char_eval)

lemma no_place_keyword_MORE:
  "list_ex (\<lambda>keyword. str_includes (toLowerCase ''MORE'') keyword) placeKeywords = False"
  by (simp add: placeKeywords_def str_includes_def units_def toLowerCase_def char_eval
      kw_narmaste_def kw_var_ar_def kw_sok_def)

lemma handlePlaceSearch_MORE: "handlePlaceSearch env p ''MORE'' language w = (Inr False, w)"
  unfolding handlePlaceSearch_def Let_def no_place_keyword_MORE
  by (simp add: action_eval)

lemma handleMoreCommand_no_reply:
  assumes "lastAiResponse (getContext (db w) p (clock env)) = None"
    and "delivers env p (Plain no_previous_text)"
  shows "handleMoreCommand env p language w
           = (Inr (), w\<lparr>outbox := outbox w @ [(p, Plain no_previous_text, sv)]\<rparr>)"
  using assms by (simp add: handleMoreCommand_def action_eval)

lemma commands_MORE:
  "\<not> isStopCommand ''MORE''" "\<not> isHelpCommand ''MORE''"
  "\<not> isLocationQueryCommand ''MORE''" "isMoreCommand ''MORE''" "trim ''MORE'' = ''MORE''"
  by (simp_all add: command_eval text_eval)

text \<open>
  C1, as the code has it. An identity with at least one credit whose session holds
  no last AI reply sends \<open>MORE\<close>: the corrective message goes out, and the caller of
  \<open>handleMoreCommand\<close> then debits one credit and logs a usage transaction all the
  same. (With no credit, \<open>more_without_credits_gets_notice\<close> below: the no-credits
  notice goes out in place of the corrective message, and nothing is debited.)
\<close>

theorem more_without_reply_is_charged:
  assumes plain: "image_attachment mediaUrl mediaType = None"
    and credit: "balance (db w) p = Some b" and enough: "1 \<le> b"
    and noreply: "lastAiResponse (getContext (db w) p (clock env)) = None"
    and sent: "delivers env p (Plain no_previous_text)"
  shows "\<exists>w'. handleActiveUserMessage env p ''MORE'' mediaUrl mediaType language w
           = (Inr (), w')
      \<and> outbox w' = outbox w @ [(p, Plain no_previous_text, sv)]
      \<and> balance (db w') p = Some (b - 1)
      \<and> transactions (db w') = transactions (db w) @
           [\<lparr>tx_phone_number = p, tx_type = usage, credits_delta = - 1,
             description = Some ''Expanded response (MORE)'', stripe_payment_id = None\<rparr>]"
proof -
  from credit obtain u where u: "users (db w) p = Some u"
    and b: "sint (credits_remaining u) = b"
    by (auto simp: balance_def getUser_def)
  have has: "hasCredits (db w) p 1" using u b enough by (simp add: hasCredits_def getUser_def)
  have one: "int4 1" by (simp add: int4_def)
  have left: "int4 (b - 1)"
    using balance_int4 [OF credit] enough by (simp add: int4_def)
  let ?w1 = "w\<lparr>outbox := outbox w @ [(p, Plain no_previous_text, sv)]\<rparr>"
  have more: "handleMoreCommand env p language w = (Inr (), ?w1)"
    using noreply sent by (rule handleMoreCommand_no_reply)
  show ?thesis
    unfolding handleActiveUserMessage_def
    using has u b enough plain one left
    by (simp add: commands_MORE parseLocation_MORE handlePlaceSearch_MORE more
        try_catch_def await_def ret_def query_def deduct_def attempt_def truthy_def
        deductCredits_def getUser_def update_user_def logTransaction_def or_null_def
        balance_def sint_minus_one_int4)
qed

theorem more_without_reply_is_charged_witness:
  "balance (db example_world) ''+46700000001'' = Some 3
   \<and> lastAiResponse (getContext (db example_world) ''+46700000001'' (clock example_services))
       = None
   \<and> outbox (snd (handleActiveUserMessage example_services ''+46700000001'' ''MORE''
                    None None sv example_world))
       = [(''+46700000001'', Plain no_previous_text, sv)]
   \<and> balance (db (snd (handleActiveUserMessage example_services ''+46700000001'' ''MORE''
                         None None sv example_world))) ''+46700000001'' = Some 2"
proof -
  have credit: "balance (db example_world) ''+46700000001'' = Some 3"
    by (simp add: example_world_def example_db_def example_user_def balance_def getUser_def)
  have noreply: "lastAiResponse (getContext (db example_world) ''+46700000001''
      (clock example_services)) = None"
    by (simp add: example_world_def example_db_def getContext_def getSession_def latest_row_def)
  have sent: "delivers example_services ''+46700000001'' (Plain no_previous_text)"
    by (simp add: example_services_def)
  have plain: "image_attachment None None = None" by (simp add: image_attachment_def)
  from more_without_reply_is_charged [OF plain credit _ noreply sent, of sv]
  obtain w' where "handleActiveUserMessage example_services ''+46700000001'' ''MORE''
       None None sv example_world = (Inr (), w')"
    and "outbox w' = outbox example_world @ [(''+46700000001'', Plain no_previous_text, sv)]"
    and "balance (db w') ''+46700000001'' = Some (3 - 1)"
    by auto
  with credit noreply show ?thesis by (simp add: example_world_def)
qed

lemma more_without_credits_gets_notice:
  assumes "balance (db w) p = Some b" and "b < 1"
    and "delivers env p (NoCreditsNotice language b)"
    and "image_attachment mediaUrl mediaType = None"
  shows "handleActiveUserMessage env p ''MORE'' mediaUrl mediaType language w
           = (Inr (), w\<lparr>outbox := outbox w @ [(p, NoCreditsNotice language b, language)]\<rparr>)"
proof -
  from assms(1) obtain u where u: "users (db w) p = Some u"
    and b: "sint (credits_remaining u) = b"
    by (auto simp: balance_def getUser_def)
  have has: "\<not> hasCredits (db w) p 1" using u b assms(2) by (simp add: hasCredits_def getUser_def)
  show ?thesis
    unfolding handleActiveUserMessage_def
    using has u b assms(3,4)
    by (simp add: commands_MORE parseLocation_MORE handlePlaceSearch_MORE handleNoCredits_def
        try_catch_def await_def ret_def query_def sendSMS_def truthy_def getUser_def)
qed

lemma code_below_256: "code c < 256"
  unfolding code_def by (rule nat_of_char_less_256)

lemma includes_units_wide:
  assumes "u \<in> set k" and "256 \<le> u"
  shows "\<not> includes_units (map code s) k"
proof (induction s)
  case Nil
  from assms show ?case by auto
next
  case (Cons x xs)
  have "take (length k) (map code (x # xs)) \<noteq> k"
  proof
    assume eq: "take (length k) (map code (x # xs)) = k"
    with assms(1) have "u \<in> set (map code (x # xs))"
      by (metis in_set_takeD)
    then obtain c where "u = code c" by auto
    with assms(2) code_below_256 [of c] show False by simp
  qed
  with Cons show ?case by simp
qed

lemma no_wide_keyword:
  "\<not> str_includes s kw_vader" "\<not> str_includes s kw_narmaste"
  "\<not> str_includes s kw_nod" "\<not> str_includes s kw_hjalp"
  "\<not> str_includes s kw_var_ar" "\<not> str_includes s kw_sok"
  unfolding str_includes_def units_def
  by (rule includes_units_wide [where u = "0x221A"]; simp add: kw_vader_def kw_narmaste_def
      kw_nod_def kw_hjalp_def kw_var_ar_def kw_sok_def)+

lemma updateSession_ledger:
  assumes "updateSession d p m a t = Inr d'"
  shows "users d' = users d \<and> transactions d' = transactions d"
  using assms
  by (auto simp: updateSession_def createSession_def Let_def
      split: option.splits if_splits sum.splits)

lemma updateSession_total:
  assumes "users d p \<noteq> None"
  shows "\<exists>d'. updateSession d p m a t = Inr d'"
  using assms
  by (auto simp: updateSession_def createSession_def Let_def split: option.splits)

text \<open>
  The keyword place search on a saved fix, \<open>handlePlaceSearch\<close>, is credit-gated:
  with credit it debits one credit, logs a usage transaction, and sends the result.
\<close>

lemma handlePlaceSearch_charges:
  assumes kw: "list_ex (\<lambda>keyword. str_includes (toLowerCase m) keyword) placeKeywords"
    and cat: "parseCategoryFromQuery m = Some cat"
    and saved: "getLastLocation (db w) p (clock env) = Some (la, lo)"
    and found: "searchNearby env \<lparr>c_lat = la, c_lon = lo\<rparr> cat (parseRadiusFromQuery m)
                  = Inr result"
    and credit: "balance (db w) p = Some b" and enough: "1 \<le> b"
    and sent: "delivers env p (Plain (formatSearchResult env result (reply_language m)))"
  shows "\<exists>w'. handlePlaceSearch env p m language w = (Inr True, w')
      \<and> balance (db w') p = Some (b - 1)
      \<and> transactions (db w') = transactions (db w) @
           [\<lparr>tx_phone_number = p, tx_type = usage, credits_delta = - 1,
             description = Some ''Place search'', stripe_payment_id = None\<rparr>]
      \<and> outbox w' = outbox w @
           [(p, Plain (formatSearchResult env result (reply_language m)), sv)]"
proof -
  from credit obtain u where u: "users (db w) p = Some u"
    and b: "sint (credits_remaining u) = b"
    by (auto simp: balance_def getUser_def)
  have has: "hasCredits (db w) p 1" using u b enough by (simp add: hasCredits_def getUser_def)
  have one: "int4 1" by (simp add: int4_def)
  have left: "int4 (b - 1)"
    using balance_int4 [OF credit] enough by (simp add: int4_def)
  let ?row = "\<lparr>tx_phone_number = p, tx_type = usage, credits_delta = - 1,
             description = Some ''Place search'', stripe_payment_id = None\<rparr>"
  let ?d1 = "update_user (db w) p
     (\<lambda>u. u\<lparr>credits_remaining := word_of_int (sint (credits_remaining u) - 1)\<rparr>)"
  let ?d2 = "?d1\<lparr>transactions := transactions ?d1 @ [?row]\<rparr>"
  let ?reply = "formatSearchResult env result (reply_language m)"
  have paid: "deductCredits (db w) p 1 = Inr (True, ?d1)"
    using u b enough one left by (simp add: deductCredits_def getUser_def)
  have u1: "users ?d1 p \<noteq> None" using u by (simp add: update_user_def)
  have logged: "logTransaction ?d1 p usage (- 1) (Some ''Place search'') None = Inr ?d2"
    using u1 by (simp add: logTransaction_def or_null_def truthy_def)
  have "users ?d2 p \<noteq> None" using u1 by simp
  from updateSession_total [OF this, of "Some m" ?reply "clock env"]
  obtain d3 where stored: "updateSession ?d2 p (Some m) ?reply (clock env) = Inr d3" by blast
  note same = updateSession_ledger [OF stored]
  have bal: "balance d3 p = Some (b - 1)"
    using same u b left
    by (simp add: balance_def getUser_def update_user_def sint_minus_one_int4)
  have tx: "transactions d3 = transactions (db w) @ [?row]"
    using same u by (simp add: update_user_def)
  have "handlePlaceSearch env p m language w
          = (Inr True, w\<lparr>db := d3, outbox := outbox w @ [(p, Plain ?reply, sv)]\<rparr>)"
    unfolding handlePlaceSearch_def Let_def
    using kw cat saved found has sent paid logged stored
    by (simp add: try_catch_def await_def ret_def query_def call_def deduct_def attempt_def
        sendSMS_def)
  with bal tx show ?thesis by simp
qed

lemma parseLocation_blank: "trim m = [] \<Longrightarrow> parseLocation m = None"
  unfolding parseLocation_def Let_def
  by (simp add: rx_eval char_eval)

lemma handleGPSMessage_frame:
  assumes "handleGPSMessage env p loc m l w = (r, w')"
  shows "users (db w') = users (db w) \<and> transactions (db w') = transactions (db w)"
  using assms
  by (auto simp: handleGPSMessage_def action_eval saveLocation_def Let_def no_wide_keyword
      split: option.splits sum.splits if_splits)

lemma handleGPSMessage_category:
  assumes "parseCategoryFromQuery (toLowerCase m) = Some cat"
    and "searchNearby env (coordinates loc) cat (parseRadiusFromQuery (toLowerCase m))
           = Inr result"
    and "delivers env p (Plain (formatSearchResult env result en))"
  shows "handleGPSMessage env p loc m l w =
           (Inr (), w\<lparr>db := saveLocation (db w) p (c_lat (coordinates loc))
                               (c_lon (coordinates loc)) (clock env),
                      outbox := outbox w @ [(p, Plain (formatSearchResult env result en), sv)]\<rparr>)"
  using assms
  by (simp add: handleGPSMessage_def action_eval Let_def no_wide_keyword)

lemma dispatch_reaches_gps:
  assumes "image_attachment mediaUrl mediaType = None"
    and "\<not> isStopCommand m" and "\<not> isHelpCommand m" and "parseLocation m = Some loc"
  shows "handleActiveUserMessage env p m mediaUrl mediaType language w
           = try_catch (handleGPSMessage env p loc m language)
               (\<lambda>error. sendSMS env p (Plain generic_error_text) sv) w"
proof -
  from assms(4) have "trim m \<noteq> []" using parseLocation_blank [of m] by auto
  moreover from this have "m \<noteq> []" by (auto simp: trim_def)
  ultimately show ?thesis
    using assms by (simp add: handleActiveUserMessage_def truthy_def try_catch_def)
qed

text \<open>
  C2, as the code has it. A text message that is not STOP or HELP, parses as
  coordinates and resolves a place-search category is answered by \<open>handleGPSMessage\<close>,
  which has no credit gate: whatever the balance, accounts and transaction log are
  left as they were, and when the search succeeds and the gateway accepts the
  message, the formatted result is what is sent. The same search asked by keyword on
  a saved fix costs one credit (\<open>handlePlaceSearch_charges\<close> above).
\<close>

theorem gps_place_search_is_free:
  assumes "image_attachment mediaUrl mediaType = None"
    and "\<not> isStopCommand m" and "\<not> isHelpCommand m"
    and "parseLocation m = Some loc"
    and "parseCategoryFromQuery (toLowerCase m) = Some cat"
  shows "\<exists>r w'. handleActiveUserMessage env p m mediaUrl mediaType language w = (r, w')
      \<and> users (db w') = users (db w)
      \<and> transactions (db w') = transactions (db w)
      \<and> (\<forall>result.
            searchNearby env (coordinates loc) cat (parseRadiusFromQuery (toLowerCase m))
              = Inr result
            \<and> delivers env p (Plain (formatSearchResult env result en))
            \<longrightarrow> r = Inr ()
              \<and> outbox w' = outbox w @ [(p, Plain (formatSearchResult env result en), sv)])"
proof -
  obtain r1 w1 where gps: "handleGPSMessage env p loc m language w = (r1, w1)" by force
  note frame = handleGPSMessage_frame [OF gps]
  note reach = dispatch_reaches_gps [OF assms(1,2,3,4), of env p language w]
  show ?thesis
  proof (cases r1)
    case (Inr x)
    with gps reach
    have run: "handleActiveUserMessage env p m mediaUrl mediaType language w = (Inr (), w1)"
      by (simp add: try_catch_def)
    have "outbox w1 = outbox w @ [(p, Plain (formatSearchResult env result en), sv)]"
      if "searchNearby env (coordinates loc) cat (parseRadiusFromQuery (toLowerCase m))
              = Inr result"
        and "delivers env p (Plain (formatSearchResult env result en))" for result
      using handleGPSMessage_category [OF assms(5) that, of language w] gps by simp
    with run frame show ?thesis by auto
  next
    case (Inl e)
    have not: "\<not> (searchNearby env (coordinates loc) cat (parseRadiusFromQuery (toLowerCase m))
              = Inr result
            \<and> delivers env p (Plain (formatSearchResult env result en)))" for result
      using handleGPSMessage_category [OF assms(5), of env loc result p language w] gps Inl
      by auto
    obtain r2 w2 where fin: "sendSMS env p (Plain generic_error_text) sv w1 = (r2, w2)" by force
    then have same: "db w2 = db w1" by (auto simp: sendSMS_def split: if_splits)
    from gps reach Inl fin
    have "handleActiveUserMessage env p m mediaUrl mediaType language w = (r2, w2)"
      by (simp add: try_catch_def)
    with frame same not show ?thesis by auto
  qed
qed

lemma gps_hospital_location:
  "parseLocation gps_hospital_text
     = Some \<lparr>coordinates = \<lparr>c_lat = 59.3293, c_lon = 18.0686\<rparr>, source = raw_coords,
              originalText = gps_hospital_text\<rparr>"
  by (simp add: gps_hospital_text_def gps_eval rx_eval char_eval)

lemma gps_hospital_lower:
  "toLowerCase gps_hospital_text = ''59.3293 n, 18.0686 e hospital''"
  by (simp add: gps_hospital_text_def text_eval)

lemma gps_hospital_category:
  "parseCategoryFromQuery (toLowerCase gps_hospital_text) = Some hospital"
  unfolding gps_hospital_lower
  by (simp add: parseCategoryFromQuery_def category_patterns_def alternatives_rx_def
      rx_eval char_eval text_eval)

lemma gps_hospital_radius:
  "parseRadiusFromQuery (toLowerCase gps_hospital_text) = 10"
  unfolding gps_hospital_lower
  by (simp add: parseRadiusFromQuery_def radius_patterns_def digits_rx_def spaces_rx_def
      rx_eval char_eval)

lemma gps_hospital_commands:
  "\<not> isStopCommand gps_hospital_text" "\<not> isHelpCommand gps_hospital_text"
  by (simp_all add: gps_hospital_text_def command_eval text_eval)

lemma no_attachment: "image_attachment None None = None"
  by (simp add: image_attachment_def)

lemma gps_hospital_run:
  "handleActiveUserMessage example_services p gps_hospital_text None None language w
     = (Inr (), w\<lparr>db := saveLocation (db w) p 59.3293 18.0686 1000,
                 outbox := outbox w @ [(p, hospital_reply, sv)]\<rparr>)"
proof -
  let ?loc = "\<lparr>coordinates = \<lparr>c_lat = 59.3293, c_lon = 18.0686\<rparr>, source = raw_coords,
              originalText = gps_hospital_text\<rparr>"
  have "handleGPSMessage example_services p ?loc gps_hospital_text language w
     = (Inr (), w\<lparr>db := saveLocation (db w) p (c_lat (coordinates ?loc))
                         (c_lon (coordinates ?loc)) (clock example_services),
                 outbox := outbox w @ [(p, Plain (formatSearchResult example_services
                    ''Sjukhus'' en), sv)]\<rparr>)"
    by (rule handleGPSMessage_category [OF gps_hospital_category])
       (simp_all add: example_services_def)
  then show ?thesis
    unfolding dispatch_reaches_gps [OF no_attachment gps_hospital_commands gps_hospital_location]
    by (simp add: try_catch_def example_services_def hospital_reply_def)
qed

theorem gps_place_search_is_free_witness:
  "\<not> isStopCommand gps_hospital_text \<and> \<not> isHelpCommand gps_hospital_text
   \<and> map_option coordinates (parseLocation gps_hospital_text)
       = Some \<lparr>c_lat = 59.3293, c_lon = 18.0686\<rparr>
   \<and> parseCategoryFromQuery (toLowerCase gps_hospital_text) = Some hospital
   \<and> users (db (snd (handleActiveUserMessage example_services ''+46700000001''
                       gps_hospital_text None None sv example_world)))
       = users (db example_world)
   \<and> transactions (db (snd (handleActiveUserMessage example_services ''+46700000001''
                              gps_hospital_text None None sv example_world)))
       = transactions (db example_world)"
proof -
  from gps_place_search_is_free [OF no_attachment gps_hospital_commands gps_hospital_location
      gps_hospital_category, of example_services "''+46700000001''" sv example_world]
  obtain r w' where "handleActiveUserMessage example_services ''+46700000001''
       gps_hospital_text None None sv example_world = (r, w')"
    and "users (db w') = users (db example_world)"
    and "transactions (db w') = transactions (db example_world)"
    by blast
  then show ?thesis
    using gps_hospital_commands gps_hospital_location gps_hospital_category by simp
qed

text \<open>
  On a concrete message: with 3 credits, the reply to coordinates with \<open>hospital\<close>
  leaves the balance at 3 and logs nothing; with no credits, the search reply is sent
  all the same.
\<close>

theorem gps_place_search_unpaid_example:
  "balance (db example_world) ''+46700000001'' = Some 3
   \<and> balance (db (snd (handleActiveUserMessage example_services ''+46700000001''
                         gps_hospital_text None None sv example_world))) ''+46700000001''
       = Some 3
   \<and> transactions (db (snd (handleActiveUserMessage example_services ''+46700000001''
                              gps_hospital_text None None sv example_world))) = []
   \<and> balance (db broke_world) ''+46700000001'' = Some 0
   \<and> outbox (snd (handleActiveUserMessage example_services ''+46700000001''
                    gps_hospital_text None None sv broke_world))
       = [(''+46700000001'', hospital_reply, sv)]"
  by (simp add: gps_hospital_run example_world_def broke_world_def example_db_def
      example_user_def balance_def getUser_def saveLocation_def)

end
